theory Spec2Isabelle
  imports Main "HOL-Library.Word"
begin

section \<open>JavaScript values that the authentication glue handles\<close>

text \<open>
  The scripts pass around strings, \<open>undefined\<close>, \<open>null\<close> and, through property lookups on
  object literals, members inherited from \<open>Object.prototype\<close>. \<open>JBuiltin n\<close> stands for the
  built-in object reached as \<open>Object.prototype[n]\<close> (a function, or the prototype itself for
  \<open>__proto__\<close>).
\<close>

datatype jsval = JUndefined | JNull | JStr string | JBool bool | JBuiltin string

text \<open>JavaScript truthiness, as used by \<open>||\<close> and \<open>if\<close>.\<close>

fun truthy :: "jsval \<Rightarrow> bool" where
  "truthy JUndefined = False"
| "truthy JNull = False"
| "truthy (JStr s) = (s \<noteq> [])"
| "truthy (JBool b) = b"
| "truthy (JBuiltin n) = True"

text \<open>\<open>a || b\<close>\<close>

definition js_or :: "jsval \<Rightarrow> jsval \<Rightarrow> jsval" where
  "js_or a b = (if truthy a then a else b)"

text \<open>A \<open>string | null\<close> field of the provider's user object, as a value.\<close>

definition nullable :: "string option \<Rightarrow> jsval" where
  "nullable x = (case x of None \<Rightarrow> JNull | Some s \<Rightarrow> JStr s)"

text \<open>A property that may be missing from an object reads as \<open>undefined\<close>.\<close>

definition optional :: "string option \<Rightarrow> jsval" where
  "optional x = (case x of None \<Rightarrow> JUndefined | Some s \<Rightarrow> JStr s)"

text \<open>
  The names every ordinary object inherits from \<open>Object.prototype\<close> in a browser
  (ECMAScript 20.1.3 and Annex B.2.2). Each of them reads as a truthy built-in.
\<close>

definition Object_prototype_keys :: "string list" where
  "Object_prototype_keys =
     [''constructor'', ''hasOwnProperty'', ''isPrototypeOf'', ''propertyIsEnumerable'',
      ''toLocaleString'', ''toString'', ''valueOf'', ''__proto__'',
      ''__defineGetter__'', ''__defineSetter__'', ''__lookupGetter__'', ''__lookupSetter__'']"

text \<open>
  \<open>obj[key]\<close> on an object literal whose own properties are the string-valued
  association list \<open>own\<close>: own properties first, then the prototype, else \<open>undefined\<close>.
  A key that is \<open>undefined\<close> is converted to the string \<open>"undefined"\<close>.
\<close>

definition property_key :: "string option \<Rightarrow> string" where
  "property_key k = (case k of None \<Rightarrow> ''undefined'' | Some s \<Rightarrow> s)"

definition js_get :: "(string \<times> string) list \<Rightarrow> string \<Rightarrow> jsval" where
  "js_get own key =
     (case map_of own key of
        Some v \<Rightarrow> JStr v
      | None \<Rightarrow> if key \<in> set Object_prototype_keys then JBuiltin key else JUndefined)"

section \<open>Error translator (\<open>getErrorMessage\<close> in firebase-config.js)\<close>

definition errorMessages :: "(string \<times> string) list" where
  "errorMessages =
     [(''auth/email-already-in-use'', ''This email is already registered. Please sign in instead.''),
      (''auth/invalid-email'', ''Please enter a valid email address.''),
      (''auth/operation-not-allowed'', ''Email/password accounts are not enabled. Please contact support.''),
      (''auth/weak-password'', ''Password should be at least 6 characters long.''),
      (''auth/user-disabled'', ''This account has been disabled. Please contact support.''),
      (''auth/user-not-found'', ''No account found with this email. Please sign up first.''),
      (''auth/wrong-password'', ''Incorrect password. Please try again.''),
      (''auth/invalid-credential'', ''Invalid email or password. Please try again.''),
      (''auth/too-many-requests'', ''Too many failed attempts. Please try again later.''),
      (''auth/network-request-failed'', ''Network error. Please check your connection.''),
      (''auth/popup-closed-by-user'', ''Sign-in popup was closed. Please try again.''),
      (''auth/cancelled-popup-request'', ''Sign-in was cancelled.''),
      (''auth/popup-blocked'', ''Popup was blocked by your browser. Please allow popups and try again.''),
      (''auth/account-exists-with-different-credential'', ''An account already exists with the same email but different sign-in credentials.''),
      (''auth/invalid-action-code'', ''The password reset link is invalid or has expired. Please request a new one.''),
      (''auth/expired-action-code'', ''The password reset link has expired. Please request a new one.''),
      (''auth/missing-email'', ''Please enter your email address.''),
      (''auth/requires-recent-login'', ''This operation requires recent authentication. Please sign in again.'')]"

definition fallbackMessage :: string where
  "fallbackMessage = ''An error occurred. Please try again.''"

text \<open>
  \<open>errorCode\<close> is \<open>error.code\<close> of whatever was caught: \<open>None\<close> when the caught value has no
  \<open>code\<close> property.
\<close>

definition getErrorMessage :: "string option \<Rightarrow> jsval" where
  "getErrorMessage errorCode =
     js_or (js_get errorMessages (property_key errorCode)) (JStr fallbackMessage)"

section \<open>The provider SDK, the backend and the page, as seen by the scripts\<close>

text \<open>The provider's user object: \<open>email\<close>, \<open>displayName\<close> and \<open>photoURL\<close> are \<open>string | null\<close>.\<close>

record fbUser =
  user_uid :: string
  user_email :: "string option"
  user_displayName :: "string option"
  user_photoURL :: "string option"
  user_emailVerified :: bool

text \<open>
  What a \<open>catch\<close> clause receives: an error object whose \<open>code\<close> and \<open>message\<close> may be
  missing (a \<open>TypeError\<close> has no \<open>code\<close>).
\<close>

record jsError =
  err_code :: "string option"
  err_message :: "string option"

definition TypeError :: jsError where
  "TypeError = \<lparr>err_code = None, err_message = Some ''TypeError''\<rparr>"

text \<open>
  A string as the regular-expression engine sees it: a sequence of UTF-16 code units.
  \<open>utf16\<close> embeds a string of code units below 256.
\<close>

type_synonym jsstring = "16 word list"

definition utf16 :: "string \<Rightarrow> jsstring" where
  "utf16 s = map of_char s"

text \<open>The properties the scripts read from a parsed backend response.\<close>

record response =
  d_success :: jsval
  d_error :: jsval
  d_deleted :: jsval

text \<open>
  \<open>await fetch(...)\<close> followed by \<open>await response.json()\<close>: the request is rejected
  (transport failure), the body does not parse, or a parsed value is delivered.
\<close>

datatype fetched = FetchRejected jsError | JsonRejected jsError | Json response

text \<open>
  The outcome of every external call the scripts await. A promise resolves (\<open>Inr\<close>, or
  \<open>None\<close> for a call without a result) or rejects with an error. \<open>currentUser\<close> is the value
  of \<open>auth.currentUser\<close> when \<open>getUserToken\<close> reads it.
\<close>

record provider =
  createUserWithEmailAndPassword :: "string \<Rightarrow> string \<Rightarrow> jsError + fbUser"
  updateProfile :: "fbUser \<Rightarrow> string \<Rightarrow> jsError option"
  sendEmailVerification :: "fbUser \<Rightarrow> jsError option"
  signInWithEmailAndPassword :: "string \<Rightarrow> string \<Rightarrow> jsError + fbUser"
  signInWithPopup :: "jsError + fbUser"
  sendPasswordResetEmail :: "jsstring \<Rightarrow> jsError option"
  auth_signOut :: "jsError option"
  currentUser :: "fbUser option"
  getIdToken :: "fbUser \<Rightarrow> jsError + string"
  fetch :: "string \<Rightarrow> (string \<times> jsval) list \<Rightarrow> fetched"

text \<open>The external calls, in the order they are issued.\<close>

datatype call =
    CreateUserWithEmailAndPassword string string
  | UpdateProfile string
  | SendEmailVerification
  | SignInWithEmailAndPassword string string
  | SignInWithPopup
  | SendPasswordResetEmail jsstring
  | SignOut
  | GetIdToken
  | Fetch string "(string \<times> jsval) list"

text \<open>
  The page during one handler run: the control's \<open>disabled\<close> flag and label, the messages
  handed to \<open>showError\<close> and \<open>showSuccess\<close>, the redirects scheduled with \<open>setTimeout\<close>
  (delay in milliseconds and target), and the log of external calls.
\<close>

record world =
  disabled :: bool
  innerHTML :: string
  errors :: "jsval list"
  successes :: "string list"
  timers :: "(nat \<times> string) list"
  calls :: "call list"

definition log :: "call \<Rightarrow> world \<Rightarrow> world" where
  "log c w = w\<lparr>calls := calls w @ [c]\<rparr>"

definition loadingHTML :: string where
  \<open>loadingHTML = ''<i class="fas fa-spinner fa-spin"></i> Please wait...''\<close>

definition showLoading :: "world \<Rightarrow> string \<times> world" where
  "showLoading w = (innerHTML w, w\<lparr>disabled := True, innerHTML := loadingHTML\<rparr>)"

definition hideLoading :: "string \<Rightarrow> world \<Rightarrow> world" where
  "hideLoading originalText w = w\<lparr>disabled := False, innerHTML := originalText\<rparr>"

definition showError :: "jsval \<Rightarrow> world \<Rightarrow> world" where
  "showError msg w = w\<lparr>errors := errors w @ [msg]\<rparr>"

definition showSuccess :: "string \<Rightarrow> world \<Rightarrow> world" where
  "showSuccess msg w = w\<lparr>successes := successes w @ [msg]\<rparr>"

definition setTimeout_redirect :: "string \<Rightarrow> nat \<Rightarrow> world \<Rightarrow> world" where
  "setTimeout_redirect href ms w = w\<lparr>timers := timers w @ [(ms, href)]\<rparr>"

section \<open>Auth client wrapper (firebase-config.js)\<close>

text \<open>
  The object literal each wrapper returns. A field is \<open>None\<close> when the literal has no such
  key, and \<open>Some v\<close> when the key is written, whatever the value.
\<close>

record AuthResult =
  success :: bool
  user :: "fbUser option"
  error :: "jsval option"
  rawCode :: "jsval option"

definition signInWithEmail :: "provider \<Rightarrow> string \<Rightarrow> string \<Rightarrow> world \<Rightarrow> AuthResult \<times> world" where
  "signInWithEmail env eml password w =
     (let w1 = log (SignInWithEmailAndPassword eml password) w in
      case signInWithEmailAndPassword env eml password of
        Inr u \<Rightarrow> (\<lparr>success = True, user = Some u, error = None, rawCode = None\<rparr>, w1)
      | Inl e \<Rightarrow> (\<lparr>success = False, user = None,
                   error = Some (getErrorMessage (err_code e)), rawCode = None\<rparr>, w1))"

definition signUp_failure :: "jsError \<Rightarrow> AuthResult" where
  "signUp_failure e =
     \<lparr>success = False, user = None, error = Some (getErrorMessage (err_code e)),
      rawCode = Some (optional (err_code e))\<rparr>"

definition signUpWithEmail ::
  "provider \<Rightarrow> string \<Rightarrow> string \<Rightarrow> string \<Rightarrow> world \<Rightarrow> AuthResult \<times> world" where
  "signUpWithEmail env eml password name w =
     (let w1 = log (CreateUserWithEmailAndPassword eml password) w in
      case createUserWithEmailAndPassword env eml password of
        Inl e \<Rightarrow> (signUp_failure e, w1)
      | Inr u \<Rightarrow>
          (let (r2, w2) = (if name \<noteq> [] then (updateProfile env u name, log (UpdateProfile name) w1)
                           else (None, w1)) in
           case r2 of
             Some e \<Rightarrow> (signUp_failure e, w2)
           | None \<Rightarrow>
               (let w3 = log SendEmailVerification w2 in
                case sendEmailVerification env u of
                  Some e \<Rightarrow> (signUp_failure e, w3)
                | None \<Rightarrow> (\<lparr>success = True, user = Some u, error = None, rawCode = None\<rparr>, w3))))"

definition signInWithGoogle :: "provider \<Rightarrow> world \<Rightarrow> AuthResult \<times> world" where
  "signInWithGoogle env w =
     (let w1 = log SignInWithPopup w in
      case signInWithPopup env of
        Inr u \<Rightarrow> (\<lparr>success = True, user = Some u, error = None, rawCode = None\<rparr>, w1)
      | Inl e \<Rightarrow> (\<lparr>success = False, user = None,
                   error = Some (getErrorMessage (err_code e)), rawCode = None\<rparr>, w1))"

definition resetPassword :: "provider \<Rightarrow> jsstring \<Rightarrow> world \<Rightarrow> AuthResult \<times> world" where
  "resetPassword env eml w =
     (let w1 = log (SendPasswordResetEmail eml) w in
      case sendPasswordResetEmail env eml of
        None \<Rightarrow> (\<lparr>success = True, user = None, error = None, rawCode = None\<rparr>, w1)
      | Some e \<Rightarrow> (\<lparr>success = False, user = None,
                    error = Some (getErrorMessage (err_code e)), rawCode = None\<rparr>, w1))"

definition signOut :: "provider \<Rightarrow> world \<Rightarrow> AuthResult \<times> world" where
  "signOut env w =
     (let w1 = log SignOut w in
      case auth_signOut env of
        None \<Rightarrow> (\<lparr>success = True, user = None, error = None, rawCode = None\<rparr>, w1)
      | Some e \<Rightarrow> (\<lparr>success = False, user = None,
                    error = Some (optional (err_message e)), rawCode = None\<rparr>, w1))"

text \<open>
  \<open>getUserToken\<close>: \<open>null\<close> when nobody is signed in, else the awaited \<open>getIdToken()\<close>,
  whose rejection is not caught here and reaches the caller (\<open>Inl\<close>).
\<close>

definition getUserToken :: "provider \<Rightarrow> world \<Rightarrow> (jsError + jsval) \<times> world" where
  "getUserToken env w =
     (case currentUser env of
        Some u \<Rightarrow> (map_sum id JStr (getIdToken env u), log GetIdToken w)
      | None \<Rightarrow> (Inr JNull, w))"

section \<open>Registration flow controller (register page script)\<close>

text \<open>
  \<open>JSON.stringify\<close> of an object literal: a property whose value is \<open>undefined\<close> or a
  function is left out, every other property is written.
\<close>

fun serialisable :: "jsval \<Rightarrow> bool" where
  "serialisable JUndefined = False"
| "serialisable (JBuiltin n) = False"
| "serialisable v = True"

definition JSON_stringify :: "(string \<times> jsval) list \<Rightarrow> (string \<times> jsval) list" where
  "JSON_stringify props = filter (\<lambda>(k, v). serialisable v) props"

text \<open>What the awaited \<open>fetch\<close> and \<open>json()\<close> hand to the surrounding code.\<close>

fun awaited :: "fetched \<Rightarrow> jsError + response" where
  "awaited (FetchRejected e) = Inl e"
| "awaited (JsonRejected e) = Inl e"
| "awaited (Json d) = Inr d"

text \<open>
  \<open>completeBackendRegistration(token, email, uid, name, photoURL, provider, isReregistration)\<close>;
  an argument the caller leaves out is \<open>JUndefined\<close>.
\<close>

definition completeBackendRegistration ::
  "provider \<Rightarrow> jsval \<Rightarrow> jsval \<Rightarrow> jsval \<Rightarrow> jsval \<Rightarrow> jsval \<Rightarrow> jsval \<Rightarrow> jsval \<Rightarrow> world
     \<Rightarrow> (jsError + response) \<times> world" where
  "completeBackendRegistration env token eml uid name photoURL prov isReregistration w =
     (let body = JSON_stringify
            [(''token'', token),
             (''email'', eml),
             (''uid'', uid),
             (''displayName'', name),
             (''photoURL'', js_or photoURL (JStr [])),
             (''provider'', js_or prov (JStr ''email'')),
             (''is_reregistration'', js_or isReregistration (JBool False))]
      in (awaited (fetch env ''/firebase-register'' body), log (Fetch ''/firebase-register'' body) w))"

text \<open>How a handler run ends: it settles, or a rejection leaves the handler uncaught.\<close>

datatype outcome = Settled | UnhandledRejection jsError

text \<open>
  The \<open>if (result.success)\<close> branch of the submit handler: the \<open>try\<close> block and its
  \<open>catch\<close>. Reading \<open>result.user.email\<close> when the result has no user throws a TypeError
  inside the \<open>try\<close>.
\<close>

definition normal_registration ::
  "provider \<Rightarrow> AuthResult \<Rightarrow> string \<Rightarrow> string \<Rightarrow> world \<Rightarrow> world" where
  "normal_registration env result name originalText w =
     (let catch = (\<lambda>w'. showError (JStr ''Network error. Please try again.'')
                           (hideLoading originalText w')) in
      case getUserToken env w of
        (Inl e, w1) \<Rightarrow> catch w1
      | (Inr token, w1) \<Rightarrow>
          (case user result of
             None \<Rightarrow> catch w1
           | Some u \<Rightarrow>
               (case completeBackendRegistration env token (nullable (user_email u))
                       (JStr (user_uid u)) (JStr name) JUndefined JUndefined JUndefined w1 of
                  (Inl e, w2) \<Rightarrow> catch w2
                | (Inr data, w2) \<Rightarrow>
                    if truthy (d_success data) then
                      setTimeout_redirect
                        ''/login?success=Account created! Please check your email to verify your account.''
                        2000
                        (showSuccess
                           ''Account created successfully! Please verify your email. Redirecting...'' w2)
                    else
                      showError (js_or (d_error data) (JStr ''Registration failed. Please try again.''))
                        (hideLoading originalText w2))))"

text \<open>
  The \<open>else if (result.rawCode === 'auth/email-already-in-use')\<close> branch: the recovery of a
  soft-deleted email, again one \<open>try\<close> block with its \<open>catch\<close>.
\<close>

definition recovery ::
  "provider \<Rightarrow> AuthResult \<Rightarrow> string \<Rightarrow> string \<Rightarrow> string \<Rightarrow> string \<Rightarrow> world \<Rightarrow> world" where
  "recovery env result name eml password originalText w =
     (let result_error = (case error result of None \<Rightarrow> JUndefined | Some m \<Rightarrow> m);
          catch = (\<lambda>w'. showError result_error (hideLoading originalText w'));
          body = JSON_stringify [(''email'', JStr eml)];
          w1 = log (Fetch ''/api/check-deleted-email'' body) w in
      case awaited (fetch env ''/api/check-deleted-email'' body) of
        Inl e \<Rightarrow> catch w1
      | Inr checkData \<Rightarrow>
          if truthy (d_deleted checkData) then
            (case signInWithEmail env eml password w1 of
               (signInResult, w2) \<Rightarrow>
                 if success signInResult then
                   (case getUserToken env w2 of
                      (Inl e, w3) \<Rightarrow> catch w3
                    | (Inr token, w3) \<Rightarrow>
                        (case user signInResult of
                           None \<Rightarrow> catch w3
                         | Some u \<Rightarrow>
                             (case completeBackendRegistration env token (nullable (user_email u))
                                     (JStr (user_uid u)) (JStr name) JNull (JStr ''email'')
                                     (JBool True) w3 of
                                (Inl e, w4) \<Rightarrow> catch w4
                              | (Inr data, w4) \<Rightarrow>
                                  if truthy (d_success data) then
                                    setTimeout_redirect ''/dashboard'' 1500
                                      (showSuccess ''Account re-created successfully! Redirecting...'' w4)
                                  else
                                    showError
                                      (js_or (d_error data)
                                         (JStr ''Re-registration failed. Please try again.''))
                                      (hideLoading originalText w4))))
                 else
                   showError
                     (JStr ''An account with this email exists. Please sign in or use a different email.'')
                     (hideLoading originalText w2))
          else
            showError result_error (hideLoading originalText w1))"

text \<open>The submit handler of \<open>registerForm\<close>, run on the four input values.\<close>

definition registerForm_submit ::
  "provider \<Rightarrow> string \<Rightarrow> string \<Rightarrow> string \<Rightarrow> string \<Rightarrow> world \<Rightarrow> outcome \<times> world" where
  "registerForm_submit env name eml password confirmPassword w =
     (if password \<noteq> confirmPassword then
        (Settled, showError (JStr ''Passwords do not match!'') w)
      else
        (case showLoading w of
           (originalText, w0) \<Rightarrow>
             (case signUpWithEmail env eml password name w0 of
                (result, w1) \<Rightarrow>
                  if success result then
                    (Settled, normal_registration env result name originalText w1)
                  else if rawCode result = Some (JStr ''auth/email-already-in-use'') then
                    (Settled, recovery env result name eml password originalText w1)
                  else
                    (Settled,
                     showError (case error result of None \<Rightarrow> JUndefined | Some m \<Rightarrow> m)
                       (hideLoading originalText w1)))))"

text \<open>
  The click handler of \<open>googleSignUpBtn\<close>. The token is awaited before the \<open>try\<close> block
  opens, so its rejection leaves the handler.
\<close>

definition googleSignUpBtn_click :: "provider \<Rightarrow> world \<Rightarrow> outcome \<times> world" where
  "googleSignUpBtn_click env w =
     (case showLoading w of
        (originalText, w0) \<Rightarrow>
          (case signInWithGoogle env w0 of
             (result, w1) \<Rightarrow>
               if success result then
                 (case getUserToken env w1 of
                    (Inl e, w2) \<Rightarrow> (UnhandledRejection e, w2)
                  | (Inr token, w2) \<Rightarrow>
                      (let catch = (\<lambda>w'. showError (JStr ''Network error. Please try again.'')
                                            (hideLoading originalText w')) in
                       case user result of
                         None \<Rightarrow> (Settled, catch w2)
                       | Some u \<Rightarrow>
                           (let body = JSON_stringify
                                  [(''token'', token),
                                   (''email'', nullable (user_email u)),
                                   (''uid'', JStr (user_uid u)),
                                   (''displayName'', nullable (user_displayName u)),
                                   (''photoURL'', nullable (user_photoURL u)),
                                   (''provider'', JStr ''google'')];
                                w3 = log (Fetch ''/firebase-register'' body) w2 in
                            case awaited (fetch env ''/firebase-register'' body) of
                              Inl e \<Rightarrow> (Settled, catch w3)
                            | Inr data \<Rightarrow>
                                if truthy (d_success data) then
                                  (Settled,
                                   setTimeout_redirect ''/dashboard'' 1000
                                     (showSuccess ''Account created successfully! Redirecting...'' w3))
                                else
                                  (Settled,
                                   showError
                                     (js_or (d_error data)
                                        (JStr ''Registration failed. Please try again.''))
                                     (hideLoading originalText w3)))))
               else
                 (Settled,
                  showError (case error result of None \<Rightarrow> JUndefined | Some m \<Rightarrow> m)
                    (hideLoading originalText w1))))"

section \<open>Password-reset flow controller (forgot-password page script)\<close>

subsection \<open>The regular expression and its \<open>test\<close>\<close>

text \<open>
  The regular expressions the pattern needs, over UTF-16 code units, matched with
  derivatives: \<open>after c r\<close> matches what \<open>r\<close> matches after a leading \<open>c\<close>.
\<close>

datatype regex =
    Never
  | Empty
  | Class "16 word \<Rightarrow> bool"
  | Or regex regex
  | Then regex regex
  | Many regex

definition OneOrMore :: "regex \<Rightarrow> regex" where
  "OneOrMore r = Then r (Many r)"

fun accepts_empty :: "regex \<Rightarrow> bool" where
  "accepts_empty Never = False"
| "accepts_empty Empty = True"
| "accepts_empty (Class p) = False"
| "accepts_empty (Or r s) = (accepts_empty r \<or> accepts_empty s)"
| "accepts_empty (Then r s) = (accepts_empty r \<and> accepts_empty s)"
| "accepts_empty (Many r) = True"

fun after :: "16 word \<Rightarrow> regex \<Rightarrow> regex" where
  "after c Never = Never"
| "after c Empty = Never"
| "after c (Class p) = (if p c then Empty else Never)"
| "after c (Or r s) = Or (after c r) (after c s)"
| "after c (Then r s) =
     (if accepts_empty r then Or (Then (after c r) s) (after c s) else Then (after c r) s)"
| "after c (Many r) = Then (after c r) (Many r)"

text \<open>Whole-string match: what \<open>test\<close> decides for a pattern anchored with \<open>^\<close> and \<open>$\<close>.\<close>

fun test :: "regex \<Rightarrow> jsstring \<Rightarrow> bool" where
  "test r [] = accepts_empty r"
| "test r (c # cs) = test (after c r) cs"

text \<open>
  \<open>\s\<close>: the WhiteSpace and LineTerminator code points of ECMAScript (tab, line feed,
  vertical tab, form feed, carriage return, space, no-break space, the Unicode space
  separators, line and paragraph separator, byte order mark).
\<close>

definition is_space :: "16 word \<Rightarrow> bool" where
  "is_space c \<longleftrightarrow>
     c = 0x9 \<or> c = 0xA \<or> c = 0xB \<or> c = 0xC \<or> c = 0xD \<or> c = 0x20 \<or> c = 0xA0 \<or>
     c = 0x1680 \<or> (0x2000 \<le> c \<and> c \<le> 0x200A) \<or> c = 0x2028 \<or> c = 0x2029 \<or>
     c = 0x202F \<or> c = 0x205F \<or> c = 0x3000 \<or> c = 0xFEFF"

definition at_sign :: "16 word" where
  "at_sign = 0x40"

definition full_stop :: "16 word" where
  "full_stop = 0x2E"

text \<open>\<open>[^\s@]\<close>\<close>

definition not_space_or_at :: "16 word \<Rightarrow> bool" where
  "not_space_or_at c \<longleftrightarrow> \<not> is_space c \<and> c \<noteq> at_sign"

text \<open>\<open>/^[^\s@]+@[^\s@]+\.[^\s@]+$/\<close>\<close>

definition emailRegex :: regex where
  "emailRegex =
     Then (OneOrMore (Class not_space_or_at))
       (Then (Class (\<lambda>c. c = at_sign))
          (Then (OneOrMore (Class not_space_or_at))
             (Then (Class (\<lambda>c. c = full_stop))
                (OneOrMore (Class not_space_or_at)))))"

subsection \<open>The submit handler of \<open>forgotPasswordForm\<close>\<close>

definition forgotPasswordForm_submit :: "provider \<Rightarrow> jsstring \<Rightarrow> world \<Rightarrow> outcome \<times> world" where
  "forgotPasswordForm_submit env eml w =
     (if \<not> test emailRegex eml then
        (Settled, showError (JStr ''Please enter a valid email address.'') w)
      else
        (case showLoading w of
           (originalText, w0) \<Rightarrow>
             (case resetPassword env eml w0 of
                (result, w1) \<Rightarrow>
                  if success result then
                    (Settled,
                     setTimeout_redirect
                       ''/login?success=Password reset email sent. Please check your inbox.'' 2500
                       (showSuccess
                          ''Password reset email sent! Please check your inbox (and spam folder).'' w1))
                  else
                    (Settled,
                     showError (case error result of None \<Rightarrow> JUndefined | Some m \<Rightarrow> m)
                       (hideLoading originalText w1)))))"

subsection \<open>The shape \<open>local@domain.tld\<close>, as the specification words it\<close>

text \<open>
  Three non-empty parts free of white space and of \<open>@\<close>, joined by one \<open>@\<close> and one
  full stop. This predicate follows the specification, not the script.
\<close>

definition local_domain_tld :: "jsstring \<Rightarrow> bool" where
  "local_domain_tld s \<longleftrightarrow>
     (\<exists>l d t. s = l @ [at_sign] @ d @ [full_stop] @ t \<and> l \<noteq> [] \<and> d \<noteq> [] \<and> t \<noteq> [] \<and>
        list_all not_space_or_at l \<and> list_all not_space_or_at d \<and> list_all not_space_or_at t)"

text \<open>The strings a regular expression stands for.\<close>

inductive_set repeat :: "jsstring set \<Rightarrow> jsstring set" for A :: "jsstring set" where
  repeat_nil: "[] \<in> repeat A"
| repeat_more: "u \<in> A \<Longrightarrow> v \<in> repeat A \<Longrightarrow> u @ v \<in> repeat A"

fun strings :: "regex \<Rightarrow> jsstring set" where
  "strings Never = {}"
| "strings Empty = {[]}"
| "strings (Class p) = {[c] | c. p c}"
| "strings (Or r s) = strings r \<union> strings s"
| "strings (Then r s) = {u @ v | u v. u \<in> strings r \<and> v \<in> strings s}"
| "strings (Many r) = repeat (strings r)"

text \<open>A page whose control is enabled and shows \<open>label\<close>, before any handler has run.\<close>

definition fresh :: "string \<Rightarrow> world" where
  "fresh label = \<lparr>disabled = False, innerHTML = label, errors = [], successes = [],
                  timers = [], calls = []\<rparr>"

section \<open>Observations on a run and sample environments\<close>

text \<open>Which logged calls are sign-in attempts, and which are requests to the registration endpoint.\<close>

fun is_sign_in :: "call \<Rightarrow> bool" where
  "is_sign_in (SignInWithEmailAndPassword e p) = True"
| "is_sign_in c = False"

fun is_register_request :: "call \<Rightarrow> bool" where
  "is_register_request (Fetch url body) = (url = ''/firebase-register'')"
| "is_register_request c = False"

text \<open>The property names of the two request bodies sent to the registration endpoint.\<close>

definition seven_fields :: "string list" where
  "seven_fields = [''token'', ''email'', ''uid'', ''displayName'', ''photoURL'', ''provider'',
                   ''is_reregistration'']"

definition six_fields :: "string list" where
  "six_fields = [''token'', ''email'', ''uid'', ''displayName'', ''photoURL'', ''provider'']"

text \<open>The bearer token cannot be fetched: somebody is signed in and \<open>getIdToken()\<close> rejects.\<close>

definition token_rejected :: "provider \<Rightarrow> bool" where
  "token_rejected env \<longleftrightarrow> (\<exists>u e. currentUser env = Some u \<and> getIdToken env u = Inl e)"

text \<open>Every request to \<open>url\<close> fails in transport or delivers a body that does not parse.\<close>

definition unreachable :: "provider \<Rightarrow> string \<Rightarrow> bool" where
  "unreachable env url \<longleftrightarrow> (\<forall>body. \<exists>e. awaited (fetch env url body) = Inl e)"

text \<open>A provider error with the given code.\<close>

definition rejection :: "string \<Rightarrow> jsError" where
  "rejection c = \<lparr>err_code = Some c, err_message = Some ''Firebase: Error''\<rparr>"

definition alice :: fbUser where
  "alice = \<lparr>user_uid = ''uid-1'', user_email = Some ''alice@example.com'',
            user_displayName = Some ''Alice'', user_photoURL = None, user_emailVerified = False\<rparr>"

text \<open>
  An environment in which every call resolves: the provider accepts everything and signs
  \<open>alice\<close> in, the backend answers \<open>{success: true, deleted: true}\<close>.
\<close>

definition online :: provider where
  "online =
     \<lparr>createUserWithEmailAndPassword = (\<lambda>e p. Inr alice),
      updateProfile = (\<lambda>u n. None),
      sendEmailVerification = (\<lambda>u. None),
      signInWithEmailAndPassword = (\<lambda>e p. Inr alice),
      signInWithPopup = Inr alice,
      sendPasswordResetEmail = (\<lambda>e. None),
      auth_signOut = None,
      currentUser = Some alice,
      getIdToken = (\<lambda>u. Inr ''token-1''),
      fetch = (\<lambda>url body. Json \<lparr>d_success = JBool True, d_error = JUndefined,
                                  d_deleted = JBool True\<rparr>)\<rparr>"

text \<open>The same environment for an email the provider already holds.\<close>

definition email_taken :: provider where
  "email_taken =
     online\<lparr>createUserWithEmailAndPassword := (\<lambda>e p. Inl (rejection ''auth/email-already-in-use''))\<rparr>"

text \<open>An environment in which every call is rejected.\<close>

definition offline :: provider where
  "offline =
     \<lparr>createUserWithEmailAndPassword = (\<lambda>e p. Inl (rejection ''auth/network-request-failed'')),
      updateProfile = (\<lambda>u n. Some (rejection ''auth/network-request-failed'')),
      sendEmailVerification = (\<lambda>u. Some (rejection ''auth/network-request-failed'')),
      signInWithEmailAndPassword = (\<lambda>e p. Inl (rejection ''auth/network-request-failed'')),
      signInWithPopup = Inl (rejection ''auth/network-request-failed''),
      sendPasswordResetEmail = (\<lambda>e. Some (rejection ''auth/network-request-failed'')),
      auth_signOut = Some (rejection ''auth/network-request-failed''),
      currentUser = None,
      getIdToken = (\<lambda>u. Inl (rejection ''auth/network-request-failed'')),
      fetch = (\<lambda>url body. FetchRejected TypeError)\<rparr>"

section \<open>Facts about the building blocks\<close>

lemmas world_ops = log_def showLoading_def hideLoading_def showError_def showSuccess_def
  setTimeout_redirect_def

lemmas regex_eval = emailRegex_def utf16_def OneOrMore_def not_space_or_at_def is_space_def
  at_sign_def full_stop_def

lemmas lookup_eval = getErrorMessage_def js_get_def js_or_def property_key_def

subsection \<open>The error translator on its table\<close>

lemma errorMessages_nonempty: "(k, v) \<in> set errorMessages \<Longrightarrow> v \<noteq> []"
  by (auto simp: errorMessages_def)

lemma errorMessages_distinct: "distinct (map fst errorMessages)"
  by (simp add: errorMessages_def)

lemma getErrorMessage_hit: "(k, v) \<in> set errorMessages \<Longrightarrow> getErrorMessage (Some k) = JStr v"
  using errorMessages_nonempty [of k v] errorMessages_distinct
  by (simp add: lookup_eval)

lemma getErrorMessage_miss:
  "k \<notin> fst ` set errorMessages \<Longrightarrow> k \<notin> set Object_prototype_keys \<Longrightarrow>
   getErrorMessage (Some k) = JStr fallbackMessage"
  by (simp add: lookup_eval map_of_eq_None_iff [THEN iffD2])

lemma getErrorMessage_no_code: "getErrorMessage None = JStr fallbackMessage"
  by (simp add: lookup_eval errorMessages_def Object_prototype_keys_def)

lemma getErrorMessage_in_use:
  "getErrorMessage (Some ''auth/email-already-in-use'') =
     JStr ''This email is already registered. Please sign in instead.''"
  by (simp add: lookup_eval errorMessages_def)

lemma getErrorMessage_truthy: "truthy (getErrorMessage c)"
  by (simp add: getErrorMessage_def js_or_def fallbackMessage_def)

subsection \<open>The derivative matcher decides membership\<close>

lemma accepts_empty_iff: "accepts_empty r \<longleftrightarrow> [] \<in> strings r"
  by (induction r) (auto intro: repeat.repeat_nil)

lemma repeat_Cons:
  "c # w \<in> repeat A \<longleftrightarrow> (\<exists>u v. w = u @ v \<and> c # u \<in> A \<and> v \<in> repeat A)"
proof
  assume "c # w \<in> repeat A"
  then show "\<exists>u v. w = u @ v \<and> c # u \<in> A \<and> v \<in> repeat A"
  proof (induction "c # w" rule: repeat.induct)
    case (repeat_more u v)
    show ?case
    proof (cases u)
      case Nil
      with repeat_more show ?thesis by simp
    next
      case (Cons a u')
      with repeat_more show ?thesis by auto
    qed
  qed
next
  assume "\<exists>u v. w = u @ v \<and> c # u \<in> A \<and> v \<in> repeat A"
  then obtain u v where "w = u @ v" "c # u \<in> A" "v \<in> repeat A" by blast
  then show "c # w \<in> repeat A"
    using repeat.repeat_more[of "c # u" A v] by simp
qed

lemma strings_after: "w \<in> strings (after c r) \<longleftrightarrow> c # w \<in> strings r"
proof (induction r arbitrary: w)
  case (Then r s)
  then show ?case
    by (auto simp: accepts_empty_iff Cons_eq_append_conv)
next
  case (Many r)
  then show ?case by (auto simp: repeat_Cons)
qed auto

lemma test_iff_strings: "test r w \<longleftrightarrow> w \<in> strings r"
  by (induction w arbitrary: r) (simp_all add: accepts_empty_iff strings_after)

lemma repeat_Class: "repeat {[c] | c. p c} = {w. list_all p w}"
proof (intro set_eqI iffI)
  fix w assume "w \<in> repeat {[c] | c. p c}"
  then show "w \<in> {w. list_all p w}" by induction auto
next
  fix w assume "w \<in> {w. list_all p w}"
  then have "list_all p w" by simp
  then show "w \<in> repeat {[c] | c. p c}"
  proof (induction w)
    case Nil show ?case by (rule repeat.repeat_nil)
  next
    case (Cons a w)
    then have "[a] \<in> {[c] | c. p c}" "w \<in> repeat {[c] | c. p c}" by auto
    then have "[a] @ w \<in> repeat {[c] | c. p c}" by (rule repeat.repeat_more)
    then show ?case by simp
  qed
qed

lemma strings_OneOrMore_Class:
  "strings (OneOrMore (Class p)) = {w. w \<noteq> [] \<and> list_all p w}"
proof (intro set_eqI iffI)
  fix w assume "w \<in> strings (OneOrMore (Class p))"
  then obtain c v where "w = [c] @ v" "p c" "v \<in> repeat {[c] | c. p c}"
    unfolding OneOrMore_def by auto
  then show "w \<in> {w. w \<noteq> [] \<and> list_all p w}"
    by (simp add: repeat_Class)
next
  fix w assume "w \<in> {w. w \<noteq> [] \<and> list_all p w}"
  then obtain c v where w: "w = c # v" "p c" "list_all p v" by (cases w) auto
  then have "[c] \<in> strings (Class p)" "v \<in> strings (Many (Class p))"
    by (simp_all add: repeat_Class)
  then have "[c] @ v \<in> strings (Then (Class p) (Many (Class p)))"
    unfolding strings.simps(5) by blast
  with w show "w \<in> strings (OneOrMore (Class p))" by (simp add: OneOrMore_def)
qed

lemma strings_Then_iff:
  "w \<in> strings (Then r s) \<longleftrightarrow> (\<exists>u v. w = u @ v \<and> u \<in> strings r \<and> v \<in> strings s)"
  by auto

lemma strings_single: "w \<in> strings (Class (\<lambda>c. c = a)) \<longleftrightarrow> w = [a]"
  by auto

lemma emailRegex_shape: "test emailRegex s \<longleftrightarrow> local_domain_tld s"
proof -
  let ?P = "\<lambda>w. w \<noteq> [] \<and> list_all not_space_or_at w"
  have "test emailRegex s \<longleftrightarrow>
        (\<exists>l v. s = l @ v \<and> ?P l \<and> (\<exists>a v'. v = a @ v' \<and> a = [at_sign] \<and>
           (\<exists>d v''. v' = d @ v'' \<and> ?P d \<and> (\<exists>b t. v'' = b @ t \<and> b = [full_stop] \<and> ?P t))))"
    unfolding test_iff_strings emailRegex_def
    by (simp only: strings_Then_iff strings_single strings_OneOrMore_Class mem_Collect_eq)
  also have "\<dots> \<longleftrightarrow> (\<exists>l d t. s = l @ [at_sign] @ d @ [full_stop] @ t \<and> ?P l \<and> ?P d \<and> ?P t)"
    by blast
  also have "\<dots> \<longleftrightarrow> local_domain_tld s"
    unfolding local_domain_tld_def by blast
  finally show ?thesis .
qed

subsection \<open>The results the wrappers build\<close>

lemmas wrapper_defs = signInWithEmail_def signUpWithEmail_def signInWithGoogle_def
  resetPassword_def signOut_def signUp_failure_def

lemma signInWithEmail_shape:
  "success (fst (signInWithEmail env eml password w)) \<longrightarrow>
     user (fst (signInWithEmail env eml password w)) \<noteq> None \<and>
     error (fst (signInWithEmail env eml password w)) = None"
  "\<not> success (fst (signInWithEmail env eml password w)) \<longrightarrow>
     error (fst (signInWithEmail env eml password w)) \<noteq> None \<and>
     user (fst (signInWithEmail env eml password w)) = None"
  by (simp_all add: signInWithEmail_def Let_def split: sum.split)

lemma signUpWithEmail_cases:
  "(\<exists>u. fst (signUpWithEmail env eml password name w) =
          \<lparr>success = True, user = Some u, error = None, rawCode = None\<rparr>) \<or>
   (\<exists>e. fst (signUpWithEmail env eml password name w) = signUp_failure e)"
  by (auto simp: signUpWithEmail_def Let_def split: sum.split option.split)

lemma signUpWithEmail_shape:
  "success (fst (signUpWithEmail env eml password name w)) \<longrightarrow>
     user (fst (signUpWithEmail env eml password name w)) \<noteq> None \<and>
     error (fst (signUpWithEmail env eml password name w)) = None"
  "\<not> success (fst (signUpWithEmail env eml password name w)) \<longrightarrow>
     error (fst (signUpWithEmail env eml password name w)) \<noteq> None \<and>
     user (fst (signUpWithEmail env eml password name w)) = None"
  using signUpWithEmail_cases [of env eml password name w]
  by (auto simp: signUp_failure_def)

lemma signInWithGoogle_shape:
  "success (fst (signInWithGoogle env w)) \<longrightarrow>
     user (fst (signInWithGoogle env w)) \<noteq> None \<and> error (fst (signInWithGoogle env w)) = None"
  "\<not> success (fst (signInWithGoogle env w)) \<longrightarrow>
     error (fst (signInWithGoogle env w)) \<noteq> None \<and> user (fst (signInWithGoogle env w)) = None"
  by (simp_all add: signInWithGoogle_def Let_def split: sum.split)

lemma resetPassword_shape:
  "success (fst (resetPassword env addr w)) \<longrightarrow>
     user (fst (resetPassword env addr w)) = None \<and> error (fst (resetPassword env addr w)) = None"
  "\<not> success (fst (resetPassword env addr w)) \<longrightarrow>
     error (fst (resetPassword env addr w)) \<noteq> None \<and> user (fst (resetPassword env addr w)) = None"
  by (simp_all add: resetPassword_def Let_def split: option.split)

lemma signOut_shape:
  "success (fst (signOut env w)) \<longrightarrow>
     user (fst (signOut env w)) = None \<and> error (fst (signOut env w)) = None"
  "\<not> success (fst (signOut env w)) \<longrightarrow>
     error (fst (signOut env w)) \<noteq> None \<and> user (fst (signOut env w)) = None"
  by (simp_all add: signOut_def Let_def split: option.split)

subsection \<open>The branches of the registration handler\<close>

lemma signUpWithEmail_world:
  "\<exists>cs. snd (signUpWithEmail env eml password name w) = w\<lparr>calls := calls w @ cs\<rparr> \<and>
        list_all (\<lambda>c. \<not> is_sign_in c \<and> \<not> is_register_request c) cs"
proof (cases "createUserWithEmailAndPassword env eml password")
  case (Inl e)
  then have "snd (signUpWithEmail env eml password name w) =
      w\<lparr>calls := calls w @ [CreateUserWithEmailAndPassword eml password]\<rparr>"
    by (simp add: signUpWithEmail_def log_def)
  then show ?thesis by (intro exI [of _ "[CreateUserWithEmailAndPassword eml password]"]) simp
next
  case (Inr u)
  let ?c = "CreateUserWithEmailAndPassword eml password"
  have "snd (signUpWithEmail env eml password name w) \<in>
      {w\<lparr>calls := calls w @ [?c, UpdateProfile name]\<rparr>,
       w\<lparr>calls := calls w @ [?c, UpdateProfile name, SendEmailVerification]\<rparr>,
       w\<lparr>calls := calls w @ [?c, SendEmailVerification]\<rparr>}"
    using Inr by (simp add: signUpWithEmail_def log_def Let_def split: option.split)
  then consider
      "snd (signUpWithEmail env eml password name w) = w\<lparr>calls := calls w @ [?c, UpdateProfile name]\<rparr>"
    | "snd (signUpWithEmail env eml password name w) =
         w\<lparr>calls := calls w @ [?c, UpdateProfile name, SendEmailVerification]\<rparr>"
    | "snd (signUpWithEmail env eml password name w) = w\<lparr>calls := calls w @ [?c, SendEmailVerification]\<rparr>"
    by blast
  then show ?thesis
  proof cases
    case 1 then show ?thesis by (intro exI [of _ "[?c, UpdateProfile name]"]) simp
  next
    case 2 then show ?thesis
      by (intro exI [of _ "[?c, UpdateProfile name, SendEmailVerification]"]) simp
  next
    case 3 then show ?thesis by (intro exI [of _ "[?c, SendEmailVerification]"]) simp
  qed
qed

lemma signUpWithEmail_rawCode:
  assumes "rawCode (fst (signUpWithEmail env eml password name w)) = Some (JStr c)"
  shows "\<not> success (fst (signUpWithEmail env eml password name w)) \<and>
         error (fst (signUpWithEmail env eml password name w)) = Some (getErrorMessage (Some c))"
proof -
  from assms signUpWithEmail_cases [of env eml password name w]
  obtain e where e: "fst (signUpWithEmail env eml password name w) = signUp_failure e"
    by auto
  with assms have "optional (err_code e) = JStr c" by (simp add: signUp_failure_def)
  then have "err_code e = Some c" by (simp add: optional_def split: option.splits)
  with e show ?thesis by (simp add: signUp_failure_def)
qed

lemma registerForm_submit_success:
  assumes "confirmPassword = password"
    and "signUpWithEmail env eml password name (snd (showLoading w)) = (result, w1)"
    and "success result"
  shows "registerForm_submit env name eml password confirmPassword w =
           (Settled, normal_registration env result name (innerHTML w) w1)"
  using assms by (simp add: registerForm_submit_def showLoading_def)

lemma registerForm_submit_in_use:
  assumes "confirmPassword = password"
    and "signUpWithEmail env eml password name (snd (showLoading w)) = (result, w1)"
    and "rawCode result = Some (JStr ''auth/email-already-in-use'')"
  shows "registerForm_submit env name eml password confirmPassword w =
           (Settled, recovery env result name eml password (innerHTML w) w1)"
proof -
  from signUpWithEmail_rawCode [of env eml password name "snd (showLoading w)"] assms(2,3)
  have "\<not> success result" by simp
  with assms show ?thesis by (simp add: registerForm_submit_def showLoading_def)
qed

lemma getUserToken_rejected:
  "token_rejected env \<Longrightarrow> \<exists>e. getUserToken env w = (Inl e, log GetIdToken w)"
  by (auto simp: token_rejected_def getUserToken_def)

lemma getUserToken_resolved:
  "\<not> token_rejected env \<Longrightarrow>
   \<exists>t w'. getUserToken env w = (Inr t, w') \<and> serialisable t \<and>
          (w' = w \<or> w' = log GetIdToken w)"
  by (cases "currentUser env"; cases "getIdToken env (the (currentUser env))")
     (auto simp: token_rejected_def getUserToken_def)

lemma completeBackendRegistration_unreachable:
  "unreachable env ''/firebase-register'' \<Longrightarrow>
   \<exists>e body. completeBackendRegistration env token a b c d p r w =
              (Inl e, log (Fetch ''/firebase-register'' body) w)"
  unfolding unreachable_def completeBackendRegistration_def Let_def by (metis)

lemma restored:
  "errors (showError m (hideLoading t w')) = errors w' @ [m]"
  "disabled (showError m (hideLoading t w')) = False"
  "innerHTML (showError m (hideLoading t w')) = t"
  "calls (showError m (hideLoading t w')) = calls w'"
  "errors (log c w') = errors w'"
  "calls (log c w') = calls w' @ [c]"
  by (simp_all add: world_ops)

lemma normal_registration_network_failure:
  assumes "token_rejected env \<or> unreachable env ''/firebase-register''"
  shows "\<exists>w'. normal_registration env result name t w =
           showError (JStr ''Network error. Please try again.'') (hideLoading t w') \<and>
           errors w' = errors w"
proof (cases "token_rejected env")
  case True
  from getUserToken_rejected [OF True, of w] obtain e
    where "getUserToken env w = (Inl e, log GetIdToken w)" ..
  then show ?thesis
    by (intro exI [of _ "log GetIdToken w"]) (simp add: normal_registration_def restored)
next
  case False
  with assms have un: "unreachable env ''/firebase-register''" by simp
  from getUserToken_resolved [OF False, of w] obtain tk w1
    where tk: "getUserToken env w = (Inr tk, w1)" and w1: "w1 = w \<or> w1 = log GetIdToken w"
    by blast
  from w1 have e1: "errors w1 = errors w" by (auto simp: restored)
  show ?thesis
  proof (cases "user result")
    case None
    with tk e1 show ?thesis
      by (intro exI [of _ w1]) (simp add: normal_registration_def)
  next
    case (Some u)
    from completeBackendRegistration_unreachable [OF un,
        of tk "nullable (user_email u)" "JStr (user_uid u)" "JStr name" JUndefined JUndefined
           JUndefined w1]
    obtain e body where
      "completeBackendRegistration env tk (nullable (user_email u)) (JStr (user_uid u)) (JStr name)
         JUndefined JUndefined JUndefined w1 = (Inl e, log (Fetch ''/firebase-register'' body) w1)"
      by blast
    with tk Some e1 show ?thesis
      by (intro exI [of _ "log (Fetch ''/firebase-register'' body) w1"])
         (simp add: normal_registration_def restored)
  qed
qed

lemma recovery_check_unreachable:
  assumes "unreachable env ''/api/check-deleted-email''"
  shows "recovery env result name eml password t w =
           showError (case error result of None \<Rightarrow> JUndefined | Some m \<Rightarrow> m)
             (hideLoading t (log (Fetch ''/api/check-deleted-email''
                (JSON_stringify [(''email'', JStr eml)])) w))"
proof -
  from assms obtain e where
    "awaited (fetch env ''/api/check-deleted-email'' (JSON_stringify [(''email'', JStr eml)])) = Inl e"
    unfolding unreachable_def by blast
  then show ?thesis by (simp add: recovery_def Let_def)
qed

lemma recovery_not_deleted:
  assumes "fetch env ''/api/check-deleted-email'' (JSON_stringify [(''email'', JStr eml)]) = Json checkData"
    and "\<not> truthy (d_deleted checkData)"
  shows "recovery env result name eml password t w =
           showError (case error result of None \<Rightarrow> JUndefined | Some m \<Rightarrow> m)
             (hideLoading t (log (Fetch ''/api/check-deleted-email''
                (JSON_stringify [(''email'', JStr eml)])) w))"
  using assms by (simp add: recovery_def Let_def)

lemma recovery_sign_in_failed:
  assumes "fetch env ''/api/check-deleted-email'' (JSON_stringify [(''email'', JStr eml)]) = Json checkData"
    and "truthy (d_deleted checkData)"
    and "signInWithEmailAndPassword env eml password = Inl e"
  shows "recovery env result name eml password t w =
           showError (JStr ''An account with this email exists. Please sign in or use a different email.'')
             (hideLoading t (log (SignInWithEmailAndPassword eml password)
                (log (Fetch ''/api/check-deleted-email''
                   (JSON_stringify [(''email'', JStr eml)])) w)))"
  using assms by (simp add: recovery_def signInWithEmail_def Let_def)

lemma recovery_signed_in:
  assumes "fetch env ''/api/check-deleted-email'' (JSON_stringify [(''email'', JStr eml)]) = Json checkData"
    and "truthy (d_deleted checkData)"
    and "signInWithEmailAndPassword env eml password = Inr u"
    and "w3 = log (SignInWithEmailAndPassword eml password)
                (log (Fetch ''/api/check-deleted-email''
                   (JSON_stringify [(''email'', JStr eml)])) w)"
  shows "recovery env result name eml password t w =
     (let catch = (\<lambda>w'. showError (case error result of None \<Rightarrow> JUndefined | Some m \<Rightarrow> m)
                           (hideLoading t w')) in
      case getUserToken env w3 of
        (Inl e, w4) \<Rightarrow> catch w4
      | (Inr token, w4) \<Rightarrow>
          (case completeBackendRegistration env token (nullable (user_email u))
                  (JStr (user_uid u)) (JStr name) JNull (JStr ''email'') (JBool True) w4 of
             (Inl e, w5) \<Rightarrow> catch w5
           | (Inr data, w5) \<Rightarrow>
               if truthy (d_success data) then
                 setTimeout_redirect ''/dashboard'' 1500
                   (showSuccess ''Account re-created successfully! Redirecting...'' w5)
               else
                 showError (js_or (d_error data) (JStr ''Re-registration failed. Please try again.''))
                   (hideLoading t w5)))"
  using assms by (simp add: recovery_def signInWithEmail_def Let_def split: prod.split sum.split)

lemma recovery_backend_failure:
  assumes "fetch env ''/api/check-deleted-email'' (JSON_stringify [(''email'', JStr eml)]) = Json checkData"
    and "truthy (d_deleted checkData)"
    and "signInWithEmailAndPassword env eml password = Inr u"
    and "token_rejected env \<or> unreachable env ''/firebase-register''"
  shows "\<exists>w'. recovery env result name eml password t w =
           showError (case error result of None \<Rightarrow> JUndefined | Some m \<Rightarrow> m) (hideLoading t w') \<and>
           errors w' = errors w"
proof -
  let ?w3 = "log (SignInWithEmailAndPassword eml password)
                (log (Fetch ''/api/check-deleted-email''
                   (JSON_stringify [(''email'', JStr eml)])) w)"
  note rec = recovery_signed_in [OF assms(1-3) refl, of result name t w]
  have e3: "errors ?w3 = errors w" by (simp add: restored)
  show ?thesis
  proof (cases "token_rejected env")
    case True
    from getUserToken_rejected [OF True, of ?w3] obtain e
      where "getUserToken env ?w3 = (Inl e, log GetIdToken ?w3)" ..
    then show ?thesis
      unfolding rec by (intro exI [of _ "log GetIdToken ?w3"]) (simp add: restored)
  next
    case False
    with assms have un: "unreachable env ''/firebase-register''" by simp
    from getUserToken_resolved [OF False, of ?w3] obtain tk w4
      where tk: "getUserToken env ?w3 = (Inr tk, w4)" and w4: "w4 = ?w3 \<or> w4 = log GetIdToken ?w3"
      by blast
    from w4 have e4: "errors w4 = errors w" by (auto simp: restored)
    from completeBackendRegistration_unreachable [OF un,
        of tk "nullable (user_email u)" "JStr (user_uid u)" "JStr name" JNull "JStr ''email''"
           "JBool True" w4]
    obtain e body where
      "completeBackendRegistration env tk (nullable (user_email u)) (JStr (user_uid u)) (JStr name)
         JNull (JStr ''email'') (JBool True) w4 = (Inl e, log (Fetch ''/firebase-register'' body) w4)"
      by blast
    with tk e4 show ?thesis
      unfolding rec
      by (intro exI [of _ "log (Fetch ''/firebase-register'' body) w4"]) (simp add: restored)
  qed
qed

lemma recovery_reregisters:
  assumes "fetch env ''/api/check-deleted-email'' (JSON_stringify [(''email'', JStr eml)]) = Json checkData"
    and "truthy (d_deleted checkData)"
    and "signInWithEmailAndPassword env eml password = Inr u"
    and "\<not> token_rejected env"
  shows "\<exists>body. filter is_register_request (calls (recovery env result name eml password t w)) =
           filter is_register_request (calls w) @ [Fetch ''/firebase-register'' body] \<and>
           (''is_reregistration'', JBool True) \<in> set body"
proof -
  let ?w3 = "log (SignInWithEmailAndPassword eml password)
                (log (Fetch ''/api/check-deleted-email''
                   (JSON_stringify [(''email'', JStr eml)])) w)"
  note rec = recovery_signed_in [OF assms(1-3) refl, of result name t w]
  from getUserToken_resolved [OF assms(4), of ?w3] obtain tk w4
    where tk: "getUserToken env ?w3 = (Inr tk, w4)" and w4: "w4 = ?w3 \<or> w4 = log GetIdToken ?w3"
    by blast
  from w4 have f4: "filter is_register_request (calls w4) = filter is_register_request (calls w)"
    by (auto simp: log_def)
  let ?body = "JSON_stringify
            [(''token'', tk), (''email'', nullable (user_email u)), (''uid'', JStr (user_uid u)),
             (''displayName'', JStr name), (''photoURL'', js_or JNull (JStr [])),
             (''provider'', js_or (JStr ''email'') (JStr ''email'')),
             (''is_reregistration'', js_or (JBool True) (JBool False))]"
  have c: "calls (recovery env result name eml password t w) =
             calls w4 @ [Fetch ''/firebase-register'' ?body]"
    unfolding rec using tk
    by (simp add: completeBackendRegistration_def Let_def world_ops split: sum.split)
  have m: "(''is_reregistration'', JBool True) \<in> set ?body"
    by (simp add: JSON_stringify_def js_or_def)
  show ?thesis
    using c m f4 by (intro exI [of _ ?body]) simp
qed

lemma signUpWithEmail_keeps:
  "\<exists>cs. snd (signUpWithEmail env eml password name (snd (showLoading w))) =
          w\<lparr>disabled := True, innerHTML := loadingHTML, calls := calls w @ cs\<rparr> \<and>
        list_all (\<lambda>c. \<not> is_sign_in c \<and> \<not> is_register_request c) cs"
  using signUpWithEmail_world [of env eml password name "snd (showLoading w)"]
  by (simp add: showLoading_def)

lemma recovery_run:
  assumes "confirmPassword = password"
    and "rawCode (fst (signUpWithEmail env eml password name (snd (showLoading w)))) =
           Some (JStr ''auth/email-already-in-use'')"
  shows "\<exists>result w1 cs.
           registerForm_submit env name eml password confirmPassword w =
             (Settled, recovery env result name eml password (innerHTML w) w1) \<and>
           error result = Some (JStr ''This email is already registered. Please sign in instead.'') \<and>
           w1 = w\<lparr>disabled := True, innerHTML := loadingHTML, calls := calls w @ cs\<rparr> \<and>
           list_all (\<lambda>c. \<not> is_sign_in c \<and> \<not> is_register_request c) cs"
proof -
  obtain result w1 where su: "signUpWithEmail env eml password name (snd (showLoading w)) = (result, w1)"
    by force
  from signUpWithEmail_rawCode [OF assms(2)] su
  have err: "error result = Some (JStr ''This email is already registered. Please sign in instead.'')"
    by (simp add: getErrorMessage_in_use)
  from assms(2) su have raw: "rawCode result = Some (JStr ''auth/email-already-in-use'')" by simp
  from signUpWithEmail_keeps [of env eml password name w] su
  obtain cs where "w1 = w\<lparr>disabled := True, innerHTML := loadingHTML, calls := calls w @ cs\<rparr>"
      "list_all (\<lambda>c. \<not> is_sign_in c \<and> \<not> is_register_request c) cs"
    by auto
  with registerForm_submit_in_use [OF assms(1) su raw] err show ?thesis by blast
qed

lemma normal_run:
  assumes "confirmPassword = password"
    and "success (fst (signUpWithEmail env eml password name (snd (showLoading w))))"
  shows "\<exists>result w1 cs.
           registerForm_submit env name eml password confirmPassword w =
             (Settled, normal_registration env result name (innerHTML w) w1) \<and>
           w1 = w\<lparr>disabled := True, innerHTML := loadingHTML, calls := calls w @ cs\<rparr> \<and>
           list_all (\<lambda>c. \<not> is_sign_in c \<and> \<not> is_register_request c) cs"
proof -
  obtain result w1 where su: "signUpWithEmail env eml password name (snd (showLoading w)) = (result, w1)"
    by force
  with assms(2) have ok: "success result" by simp
  from signUpWithEmail_keeps [of env eml password name w] su
  obtain cs where "w1 = w\<lparr>disabled := True, innerHTML := loadingHTML, calls := calls w @ cs\<rparr>"
      "list_all (\<lambda>c. \<not> is_sign_in c \<and> \<not> is_register_request c) cs"
    by auto
  with registerForm_submit_success [OF assms(1) su ok] show ?thesis by blast
qed

lemma getUserToken_cases:
  "(\<exists>e. getUserToken env w = (Inl e, log GetIdToken w)) \<or>
   (\<exists>t. getUserToken env w = (Inr (JStr t), log GetIdToken w)) \<or>
   getUserToken env w = (Inr JNull, w)"
proof (cases "currentUser env")
  case None
  then show ?thesis by (simp add: getUserToken_def)
next
  case (Some u)
  then show ?thesis by (cases "getIdToken env u") (simp_all add: getUserToken_def)
qed

lemma serialisable_js_or:
  "serialisable d \<Longrightarrow> p = JUndefined \<or> serialisable p \<Longrightarrow> serialisable (js_or p d)"
  by (cases p) (simp_all add: js_or_def)

lemma serialisable_nullable: "serialisable (nullable a)"
  by (cases a) (simp_all add: nullable_def)

lemma completeBackendRegistration_snd:
  "snd (completeBackendRegistration env token a b c p q r w) =
     log (Fetch ''/firebase-register''
       (JSON_stringify
            [(''token'', token), (''email'', a), (''uid'', b), (''displayName'', c),
             (''photoURL'', js_or p (JStr [])), (''provider'', js_or q (JStr ''email'')),
             (''is_reregistration'', js_or r (JBool False))])) w"
  by (simp add: completeBackendRegistration_def Let_def)

lemma registration_body_fields:
  assumes "serialisable token" "serialisable a" "serialisable b" "serialisable c"
    and "p = JUndefined \<or> serialisable p" "q = JUndefined \<or> serialisable q"
        "r = JUndefined \<or> serialisable r"
  shows "map fst (JSON_stringify
            [(''token'', token), (''email'', a), (''uid'', b), (''displayName'', c),
             (''photoURL'', js_or p (JStr [])), (''provider'', js_or q (JStr ''email'')),
             (''is_reregistration'', js_or r (JBool False))]) = seven_fields"
proof -
  have "serialisable (js_or p (JStr []))" "serialisable (js_or q (JStr ''email''))"
      "serialisable (js_or r (JBool False))"
    using assms(5-7) by (simp_all add: serialisable_js_or)
  with assms(1-4) show ?thesis by (simp add: JSON_stringify_def seven_fields_def)
qed

subsection \<open>The requests a run sends to the registration endpoint\<close>

lemma quiet_no_register_request:
  "list_all (\<lambda>c. \<not> is_sign_in c \<and> \<not> is_register_request c) cs \<Longrightarrow>
   filter is_register_request cs = []"
  by (induction cs) auto

lemma normal_registration_requests:
  assumes "Fetch ''/firebase-register'' body \<in> set (calls (normal_registration env result name t w))"
  shows "Fetch ''/firebase-register'' body \<in> set (calls w) \<or> map fst body = seven_fields"
proof -
  from getUserToken_cases [of env w] consider
      e where "getUserToken env w = (Inl e, log GetIdToken w)"
    | tk w1 where "getUserToken env w = (Inr tk, w1)" "serialisable tk"
        "w1 = w \<or> w1 = log GetIdToken w"
    by fastforce
  then show ?thesis
  proof cases
    case 1
    with assms show ?thesis by (simp add: normal_registration_def world_ops)
  next
    case 2
    from 2(3) have c1: "set (calls w1) \<subseteq> insert GetIdToken (set (calls w))"
      by (auto simp: log_def)
    show ?thesis
    proof (cases "user result")
      case None
      with 2(1) assms have "Fetch ''/firebase-register'' body \<in> set (calls w1)"
        by (simp add: normal_registration_def world_ops)
      with c1 show ?thesis by auto
    next
      case (Some u)
      let ?b = "JSON_stringify
            [(''token'', tk), (''email'', nullable (user_email u)), (''uid'', JStr (user_uid u)),
             (''displayName'', JStr name), (''photoURL'', js_or JUndefined (JStr [])),
             (''provider'', js_or JUndefined (JStr ''email'')),
             (''is_reregistration'', js_or JUndefined (JBool False))]"
      obtain r w2 where cb: "completeBackendRegistration env tk (nullable (user_email u))
            (JStr (user_uid u)) (JStr name) JUndefined JUndefined JUndefined w1 = (r, w2)"
        by force
      with completeBackendRegistration_snd [of env tk "nullable (user_email u)" "JStr (user_uid u)"
          "JStr name" JUndefined JUndefined JUndefined w1]
      have w2: "w2 = log (Fetch ''/firebase-register'' ?b) w1" by simp
      have k: "map fst ?b = seven_fields"
        by (rule registration_body_fields) (simp_all add: 2(2) serialisable_nullable)
      have "calls (normal_registration env result name t w) = calls w2"
        using 2(1) Some cb by (simp add: normal_registration_def world_ops split: sum.split)
      with assms w2 have "Fetch ''/firebase-register'' body \<in> set (calls w1) \<or> body = ?b"
        by (auto simp: log_def)
      with c1 k show ?thesis by auto
    qed
  qed
qed

lemma recovery_requests:
  assumes "Fetch ''/firebase-register'' body \<in> set (calls (recovery env result name eml password t w))"
  shows "Fetch ''/firebase-register'' body \<in> set (calls w) \<or> map fst body = seven_fields"
proof (cases "fetch env ''/api/check-deleted-email'' (JSON_stringify [(''email'', JStr eml)])")
  case (FetchRejected e)
  with assms show ?thesis by (simp add: recovery_def Let_def world_ops)
next
  case (JsonRejected e)
  with assms show ?thesis by (simp add: recovery_def Let_def world_ops)
next
  case (Json checkData)
  show ?thesis
  proof (cases "truthy (d_deleted checkData)")
    case False
    from assms show ?thesis
      unfolding recovery_not_deleted [OF Json False] by (simp add: world_ops)
  next
    case True
    show ?thesis
    proof (cases "signInWithEmailAndPassword env eml password")
      case (Inl e)
      from assms show ?thesis
        unfolding recovery_sign_in_failed [OF Json True Inl] by (simp add: world_ops)
    next
      case (Inr u)
      let ?w3 = "log (SignInWithEmailAndPassword eml password)
                (log (Fetch ''/api/check-deleted-email''
                   (JSON_stringify [(''email'', JStr eml)])) w)"
      note rec = recovery_signed_in [OF Json True Inr refl, of result name t w]
      have c3: "Fetch ''/firebase-register'' body \<in> set (calls ?w3) \<Longrightarrow>
                Fetch ''/firebase-register'' body \<in> set (calls w)"
        by (simp add: log_def)
      from getUserToken_cases [of env ?w3] consider
          e where "getUserToken env ?w3 = (Inl e, log GetIdToken ?w3)"
        | tk w4 where "getUserToken env ?w3 = (Inr tk, w4)" "serialisable tk"
            "w4 = ?w3 \<or> w4 = log GetIdToken ?w3"
        by fastforce
      then show ?thesis
      proof cases
        case 1
        with assms have "Fetch ''/firebase-register'' body \<in> set (calls ?w3)"
          unfolding rec by (simp add: world_ops)
        with c3 show ?thesis by simp
      next
        case 2
        from 2(3) have c4: "Fetch ''/firebase-register'' body \<in> set (calls w4) \<Longrightarrow>
                Fetch ''/firebase-register'' body \<in> set (calls w)"
          by (auto simp: log_def)
        let ?b = "JSON_stringify
            [(''token'', tk), (''email'', nullable (user_email u)), (''uid'', JStr (user_uid u)),
             (''displayName'', JStr name), (''photoURL'', js_or JNull (JStr [])),
             (''provider'', js_or (JStr ''email'') (JStr ''email'')),
             (''is_reregistration'', js_or (JBool True) (JBool False))]"
        obtain r w5 where cb: "completeBackendRegistration env tk (nullable (user_email u))
            (JStr (user_uid u)) (JStr name) JNull (JStr ''email'') (JBool True) w4 = (r, w5)"
          by force
        with completeBackendRegistration_snd [of env tk "nullable (user_email u)" "JStr (user_uid u)"
          "JStr name" JNull "JStr ''email''" "JBool True" w4]
        have w5: "w5 = log (Fetch ''/firebase-register'' ?b) w4" by simp
        have k: "map fst ?b = seven_fields"
          by (rule registration_body_fields) (simp_all add: 2(2) serialisable_nullable)
        have "calls (recovery env result name eml password t w) = calls w5"
          unfolding rec using 2(1) cb by (simp add: world_ops split: sum.split)
        with assms w5 have "Fetch ''/firebase-register'' body \<in> set (calls w4) \<or> body = ?b"
          by (auto simp: log_def)
        with c4 k show ?thesis by auto
      qed
    qed
  qed
qed

lemma googleSignUpBtn_click_requests:
  assumes "Fetch ''/firebase-register'' body \<in> set (calls (snd (googleSignUpBtn_click env w)))"
  shows "Fetch ''/firebase-register'' body \<in> set (calls w) \<or> map fst body = six_fields"
proof (cases "signInWithPopup env")
  case (Inl e)
  with assms show ?thesis
    by (simp add: googleSignUpBtn_click_def signInWithGoogle_def world_ops Let_def)
next
  case (Inr u)
  let ?w1 = "log SignInWithPopup (snd (showLoading w))"
  let ?catch = "\<lambda>w'. showError (JStr ''Network error. Please try again.'')
                        (hideLoading (innerHTML w) w')"
  have run: "googleSignUpBtn_click env w =
      (case getUserToken env ?w1 of
         (Inl e, w2) \<Rightarrow> (UnhandledRejection e, w2)
       | (Inr token, w2) \<Rightarrow>
           (let body = JSON_stringify
                  [(''token'', token), (''email'', nullable (user_email u)),
                   (''uid'', JStr (user_uid u)), (''displayName'', nullable (user_displayName u)),
                   (''photoURL'', nullable (user_photoURL u)), (''provider'', JStr ''google'')];
                w3 = log (Fetch ''/firebase-register'' body) w2 in
            case awaited (fetch env ''/firebase-register'' body) of
              Inl e \<Rightarrow> (Settled, ?catch w3)
            | Inr data \<Rightarrow>
                if truthy (d_success data) then
                  (Settled,
                   setTimeout_redirect ''/dashboard'' 1000
                     (showSuccess ''Account created successfully! Redirecting...'' w3))
                else
                  (Settled,
                   showError (js_or (d_error data) (JStr ''Registration failed. Please try again.''))
                     (hideLoading (innerHTML w) w3))))"
    using Inr
    by (simp add: googleSignUpBtn_click_def signInWithGoogle_def showLoading_def Let_def
          split: prod.split sum.split)
  have c1: "Fetch ''/firebase-register'' body \<in> set (calls ?w1) \<Longrightarrow>
            Fetch ''/firebase-register'' body \<in> set (calls w)"
    by (simp add: world_ops)
  from getUserToken_cases [of env ?w1] consider
      e where "getUserToken env ?w1 = (Inl e, log GetIdToken ?w1)"
    | tk w2 where "getUserToken env ?w1 = (Inr tk, w2)" "serialisable tk"
        "w2 = ?w1 \<or> w2 = log GetIdToken ?w1"
    by fastforce
  then show ?thesis
  proof cases
    case 1
    with assms have "Fetch ''/firebase-register'' body \<in> set (calls ?w1)"
      unfolding run by (simp add: log_def)
    with c1 show ?thesis by simp
  next
    case 2
    from 2(3) have c2: "Fetch ''/firebase-register'' body \<in> set (calls w2) \<Longrightarrow>
            Fetch ''/firebase-register'' body \<in> set (calls ?w1)"
      by (auto simp: log_def)
    let ?b = "JSON_stringify
                  [(''token'', tk), (''email'', nullable (user_email u)),
                   (''uid'', JStr (user_uid u)), (''displayName'', nullable (user_displayName u)),
                   (''photoURL'', nullable (user_photoURL u)), (''provider'', JStr ''google'')]"
    have k: "map fst ?b = six_fields"
      by (simp add: JSON_stringify_def six_fields_def 2(2) serialisable_nullable)
    have "calls (snd (googleSignUpBtn_click env w)) = calls w2 @ [Fetch ''/firebase-register'' ?b]"
      unfolding run using 2(1) by (simp add: world_ops Let_def split: sum.split)
    with assms have "Fetch ''/firebase-register'' body \<in> set (calls w2) \<or> body = ?b"
      by auto
    with c1 c2 k show ?thesis by auto
  qed
qed

lemma registerForm_submit_requests:
  assumes "Fetch ''/firebase-register'' body \<in>
             set (calls (snd (registerForm_submit env name eml password confirmPassword w)))"
  shows "Fetch ''/firebase-register'' body \<in> set (calls w) \<or> map fst body = seven_fields"
proof (cases "password = confirmPassword")
  case False
  with assms show ?thesis by (simp add: registerForm_submit_def showError_def)
next
  case True
  obtain result w1 where su: "signUpWithEmail env eml password name (snd (showLoading w)) = (result, w1)"
    by force
  from signUpWithEmail_keeps [of env eml password name w] su
  obtain cs where w1: "w1 = w\<lparr>disabled := True, innerHTML := loadingHTML, calls := calls w @ cs\<rparr>"
    and cs: "list_all (\<lambda>c. \<not> is_sign_in c \<and> \<not> is_register_request c) cs"
    by auto
  have "Fetch ''/firebase-register'' body \<notin> set cs"
    using cs by (auto simp: list_all_iff)
  with w1 have c1: "Fetch ''/firebase-register'' body \<in> set (calls w1) \<Longrightarrow>
                    Fetch ''/firebase-register'' body \<in> set (calls w)"
    by simp
  have "snd (registerForm_submit env name eml password confirmPassword w) \<in>
          {normal_registration env result name (innerHTML w) w1,
           recovery env result name eml password (innerHTML w) w1,
           showError (case error result of None \<Rightarrow> JUndefined | Some m \<Rightarrow> m)
             (hideLoading (innerHTML w) w1)}"
    using True su by (simp add: registerForm_submit_def showLoading_def)
  with assms consider
      "Fetch ''/firebase-register'' body \<in> set (calls (normal_registration env result name (innerHTML w) w1))"
    | "Fetch ''/firebase-register'' body \<in> set (calls (recovery env result name eml password (innerHTML w) w1))"
    | "Fetch ''/firebase-register'' body \<in> set (calls w1)"
    by (auto simp: world_ops)
  then show ?thesis
  proof cases
    case 1 from normal_registration_requests [OF 1] c1 show ?thesis by blast
  next
    case 2 from recovery_requests [OF 2] c1 show ?thesis by blast
  next
    case 3 with c1 show ?thesis by simp
  qed
qed

subsection \<open>Runs that settle\<close>

lemma registerForm_submit_settles:
  "fst (registerForm_submit env name eml password confirmPassword w) = Settled"
  by (simp add: registerForm_submit_def split: prod.split)

lemma forgotPasswordForm_submit_settles:
  "fst (forgotPasswordForm_submit env eml w) = Settled"
  by (simp add: forgotPasswordForm_submit_def split: prod.split)

lemma forgotPasswordForm_submit_failure:
  assumes "test emailRegex eml" and "sendPasswordResetEmail env eml = Some e"
  shows "forgotPasswordForm_submit env eml w =
           (Settled, w\<lparr>disabled := False, errors := errors w @ [getErrorMessage (err_code e)],
                        calls := calls w @ [SendPasswordResetEmail eml]\<rparr>)"
  using assms
  by (simp add: forgotPasswordForm_submit_def resetPassword_def world_ops Let_def)

lemma googleSignUpBtn_click_sign_in_failure:
  assumes "signInWithPopup env = Inl e"
  shows "googleSignUpBtn_click env w =
           (Settled, w\<lparr>disabled := False, errors := errors w @ [getErrorMessage (err_code e)],
                        calls := calls w @ [SignInWithPopup]\<rparr>)"
  using assms
  by (simp add: googleSignUpBtn_click_def signInWithGoogle_def world_ops Let_def)

subsection \<open>Evaluating a run\<close>

lemmas run_eval = registerForm_submit_def normal_registration_def recovery_def
  googleSignUpBtn_click_def wrapper_defs getUserToken_def completeBackendRegistration_def
  JSON_stringify_def world_ops online_def email_taken_def offline_def fresh_def rejection_def
  lookup_eval errorMessages_def optional_def nullable_def alice_def Let_def TypeError_def

section \<open>The claims\<close>

text \<open>
  C9, at a string outside the translation table: for the property name \<open>toString\<close> the
  lookup \<open>errorMessages[errorCode]\<close> finds the function inherited from
  \<open>Object.prototype\<close>, which is truthy, so \<open>getErrorMessage\<close> returns that function and not
  the fallback string \<open>An error occurred. Please try again.\<close>
\<close>

theorem getErrorMessage_toString:
  "getErrorMessage (Some ''toString'') = JBuiltin ''toString'' \<and>
   ''toString'' \<notin> fst ` set errorMessages \<and>
   getErrorMessage (Some ''toString'') \<noteq> JStr fallbackMessage"
  by (simp add: lookup_eval errorMessages_def Object_prototype_keys_def)

text \<open>
  C10: the password-reset handler rejects an email that does not have the shape
  \<open>local@domain.tld\<close> locally (it only shows the validation message; the call log and the
  control are untouched), and for an email of that shape it goes on to call the reset
  operation with that email.
\<close>

theorem forgot_password_validates_email:
  "(\<not> local_domain_tld eml \<longrightarrow>
      forgotPasswordForm_submit env eml w =
        (Settled, w\<lparr>errors := errors w @ [JStr ''Please enter a valid email address.'']\<rparr>)) \<and>
   (local_domain_tld eml \<longrightarrow>
      calls (snd (forgotPasswordForm_submit env eml w)) = calls w @ [SendPasswordResetEmail eml])"
  by (simp add: forgotPasswordForm_submit_def emailRegex_shape resetPassword_def world_ops Let_def
        split: option.split)

theorem forgot_password_validates_email_witness:
  "\<not> local_domain_tld (utf16 ''not-an-email'') \<and>
   forgotPasswordForm_submit online (utf16 ''not-an-email'') (fresh ''Send Reset Link'') =
     (Settled, (fresh ''Send Reset Link'')\<lparr>errors := [JStr ''Please enter a valid email address.'']\<rparr>) \<and>
   local_domain_tld (utf16 ''user@example.com'') \<and>
   calls (snd (forgotPasswordForm_submit online (utf16 ''user@example.com'') (fresh ''Send Reset Link'')))
     = [SendPasswordResetEmail (utf16 ''user@example.com'')]"
proof -
  have no: "\<not> local_domain_tld (utf16 ''not-an-email'')"
    unfolding emailRegex_shape [symmetric] by (simp add: regex_eval)
  have yes: "local_domain_tld (utf16 ''user@example.com'')"
    unfolding emailRegex_shape [symmetric] by (simp add: regex_eval)
  show ?thesis
    using no yes
      forgot_password_validates_email [of "utf16 ''not-an-email''" online "fresh ''Send Reset Link''"]
      forgot_password_validates_email [of "utf16 ''user@example.com''" online "fresh ''Send Reset Link''"]
    by (simp add: fresh_def)
qed

text \<open>
  C1, as stated, fails: the three provider calls of \<open>signUpWithEmail\<close> share one \<open>try\<close>
  block, so when the account is created and the verification email cannot be sent the
  result is a failure that carries the code of the trailing call.
\<close>

theorem signUp_trailing_failure_counterexample:
  "createUserWithEmailAndPassword
     (online\<lparr>sendEmailVerification := (\<lambda>u. Some (rejection ''auth/too-many-requests''))\<rparr>)
     ''alice@example.com'' ''secret1'' = Inr alice \<and>
   fst (signUpWithEmail
     (online\<lparr>sendEmailVerification := (\<lambda>u. Some (rejection ''auth/too-many-requests''))\<rparr>)
     ''alice@example.com'' ''secret1'' ''Alice'' (fresh ''Create Account'')) =
   \<lparr>success = False, user = None,
    error = Some (JStr ''Too many failed attempts. Please try again later.''),
    rawCode = Some (JStr ''auth/too-many-requests'')\<rparr>"
  by (simp add: wrapper_defs online_def rejection_def optional_def lookup_eval errorMessages_def
       Let_def)

text \<open>
  C1, amended: \<open>signUpWithEmail\<close> reports success, with the created user, exactly when the
  creation call and every trailing call it makes (the display-name update, skipped for an
  empty name, and the verification email) resolve. When the creation call is rejected, or
  a trailing call is, the result is a failure with the translated message and with
  \<open>rawCode\<close> set to the code of the error that was caught.
\<close>

theorem signUp_result:
  "(createUserWithEmailAndPassword env eml password = Inl e \<longrightarrow>
      fst (signUpWithEmail env eml password name w) =
        \<lparr>success = False, user = None, error = Some (getErrorMessage (err_code e)),
         rawCode = Some (optional (err_code e))\<rparr>) \<and>
   (createUserWithEmailAndPassword env eml password = Inr u \<longrightarrow>
      (name = [] \<or> updateProfile env u name = None) \<longrightarrow> sendEmailVerification env u = None \<longrightarrow>
      fst (signUpWithEmail env eml password name w) =
        \<lparr>success = True, user = Some u, error = None, rawCode = None\<rparr>) \<and>
   (createUserWithEmailAndPassword env eml password = Inr u \<longrightarrow>
      name \<noteq> [] \<longrightarrow> updateProfile env u name = Some e \<longrightarrow>
      fst (signUpWithEmail env eml password name w) =
        \<lparr>success = False, user = None, error = Some (getErrorMessage (err_code e)),
         rawCode = Some (optional (err_code e))\<rparr>) \<and>
   (createUserWithEmailAndPassword env eml password = Inr u \<longrightarrow>
      (name = [] \<or> updateProfile env u name = None) \<longrightarrow> sendEmailVerification env u = Some e \<longrightarrow>
      fst (signUpWithEmail env eml password name w) =
        \<lparr>success = False, user = None, error = Some (getErrorMessage (err_code e)),
         rawCode = Some (optional (err_code e))\<rparr>)"
  by (auto simp: wrapper_defs Let_def split: option.splits)

theorem signUp_result_witness:
  "createUserWithEmailAndPassword email_taken ''alice@example.com'' ''secret1''
     = Inl (rejection ''auth/email-already-in-use'') \<and>
   fst (signUpWithEmail email_taken ''alice@example.com'' ''secret1'' ''Alice'' (fresh ''Create Account'')) =
     \<lparr>success = False, user = None,
      error = Some (JStr ''This email is already registered. Please sign in instead.''),
      rawCode = Some (JStr ''auth/email-already-in-use'')\<rparr> \<and>
   createUserWithEmailAndPassword online ''alice@example.com'' ''secret1'' = Inr alice \<and>
   updateProfile online alice ''Alice'' = None \<and> sendEmailVerification online alice = None \<and>
   fst (signUpWithEmail online ''alice@example.com'' ''secret1'' ''Alice'' (fresh ''Create Account'')) =
     \<lparr>success = True, user = Some alice, error = None, rawCode = None\<rparr> \<and>
   updateProfile offline alice ''Alice'' = Some (rejection ''auth/network-request-failed'') \<and>
   fst (signUpWithEmail (offline\<lparr>createUserWithEmailAndPassword := (\<lambda>e p. Inr alice)\<rparr>)
          ''alice@example.com'' ''secret1'' ''Alice'' (fresh ''Create Account'')) =
     \<lparr>success = False, user = None,
      error = Some (JStr ''Network error. Please check your connection.''),
      rawCode = Some (JStr ''auth/network-request-failed'')\<rparr> \<and>
   fst (signUpWithEmail (offline\<lparr>createUserWithEmailAndPassword := (\<lambda>e p. Inr alice)\<rparr>)
          ''alice@example.com'' ''secret1'' [] (fresh ''Create Account'')) =
     \<lparr>success = False, user = None,
      error = Some (JStr ''Network error. Please check your connection.''),
      rawCode = Some (JStr ''auth/network-request-failed'')\<rparr>"
  using
    signUp_result [of email_taken "''alice@example.com''" "''secret1''"
      "rejection ''auth/email-already-in-use''" "''Alice''" "fresh ''Create Account''" alice]
    signUp_result [of online "''alice@example.com''" "''secret1''"
      "rejection ''auth/email-already-in-use''" "''Alice''" "fresh ''Create Account''" alice]
    signUp_result [of "offline\<lparr>createUserWithEmailAndPassword := (\<lambda>e p. Inr alice)\<rparr>"
      "''alice@example.com''" "''secret1''"
      "rejection ''auth/network-request-failed''" "''Alice''" "fresh ''Create Account''" alice]
    signUp_result [of "offline\<lparr>createUserWithEmailAndPassword := (\<lambda>e p. Inr alice)\<rparr>"
      "''alice@example.com''" "''secret1''"
      "rejection ''auth/network-request-failed''" "[]" "fresh ''Create Account''" alice]
  by (simp add: online_def offline_def email_taken_def rejection_def optional_def lookup_eval
        errorMessages_def)

text \<open>
  C2, as stated, fails: a successful \<open>resetPassword\<close> returns \<open>{success: true}\<close>, which has
  no \<open>user\<close> field.
\<close>

theorem resetPassword_success_without_user:
  "success (fst (resetPassword online (utf16 ''user@example.com'') (fresh ''Send Reset Link''))) \<and>
   user (fst (resetPassword online (utf16 ''user@example.com'') (fresh ''Send Reset Link''))) = None"
  by (simp add: wrapper_defs online_def Let_def)

text \<open>
  C2, amended: the results of \<open>signInWithEmail\<close>, \<open>signUpWithEmail\<close> and
  \<open>signInWithGoogle\<close> have a \<open>user\<close> and no \<open>error\<close> on success, and an \<open>error\<close> and no
  \<open>user\<close> on failure; the results of \<open>resetPassword\<close> and \<open>signOut\<close> have neither field on
  success, and an \<open>error\<close> and no \<open>user\<close> on failure.
\<close>

theorem AuthResult_shape:
  "(\<forall>r \<in> {fst (signInWithEmail env eml password w),
            fst (signUpWithEmail env eml password name w),
            fst (signInWithGoogle env w)}.
      (success r \<longrightarrow> user r \<noteq> None \<and> error r = None) \<and>
      (\<not> success r \<longrightarrow> error r \<noteq> None \<and> user r = None)) \<and>
   (\<forall>r \<in> {fst (resetPassword env addr w), fst (signOut env w)}.
      (success r \<longrightarrow> user r = None \<and> error r = None) \<and>
      (\<not> success r \<longrightarrow> error r \<noteq> None \<and> user r = None))"
  using signInWithEmail_shape [of env eml password w] signUpWithEmail_shape [of env eml password name w]
    signInWithGoogle_shape [of env w] resetPassword_shape [of env addr w] signOut_shape [of env w]
  by simp

theorem AuthResult_shape_witness:
  "success (fst (signInWithEmail online ''alice@example.com'' ''secret1'' (fresh ''Sign In''))) \<and>
   user (fst (signInWithEmail online ''alice@example.com'' ''secret1'' (fresh ''Sign In''))) \<noteq> None \<and>
   error (fst (signInWithEmail online ''alice@example.com'' ''secret1'' (fresh ''Sign In''))) = None \<and>
   \<not> success (fst (signInWithGoogle offline (fresh ''Sign In''))) \<and>
   error (fst (signInWithGoogle offline (fresh ''Sign In''))) \<noteq> None \<and>
   user (fst (signInWithGoogle offline (fresh ''Sign In''))) = None \<and>
   success (fst (signOut online (fresh ''Sign In''))) \<and>
   user (fst (signOut online (fresh ''Sign In''))) = None \<and>
   error (fst (signOut online (fresh ''Sign In''))) = None \<and>
   \<not> success (fst (resetPassword offline (utf16 ''user@example.com'') (fresh ''Sign In''))) \<and>
   error (fst (resetPassword offline (utf16 ''user@example.com'') (fresh ''Sign In''))) \<noteq> None \<and>
   user (fst (resetPassword offline (utf16 ''user@example.com'') (fresh ''Sign In''))) = None"
proof -
  have on: "success (fst (signInWithEmail online ''alice@example.com'' ''secret1'' (fresh ''Sign In'')))"
    "success (fst (signOut online (fresh ''Sign In'')))"
    by (simp_all add: signInWithEmail_def signOut_def online_def Let_def)
  have off: "\<not> success (fst (signInWithGoogle offline (fresh ''Sign In'')))"
    "\<not> success (fst (resetPassword offline (utf16 ''user@example.com'') (fresh ''Sign In'')))"
    by (simp_all add: signInWithGoogle_def resetPassword_def offline_def Let_def)
  note A = AuthResult_shape [where env = online and eml = "''alice@example.com''"
        and password = "''secret1''" and w = "fresh ''Sign In''" and name = "''Alice''"
        and addr = "utf16 ''user@example.com''"]
  note B = AuthResult_shape [where env = offline and eml = "''alice@example.com''"
        and password = "''secret1''" and w = "fresh ''Sign In''" and name = "''Alice''"
        and addr = "utf16 ''user@example.com''"]
  show ?thesis
    using on off A B by (simp only: ball_simps insert_iff empty_iff simp_thms)
qed

text \<open>
  C3, at a failing run of the Google sign-up handler: the pop-up sign-in succeeds and
  \<open>getIdToken()\<close> rejects. The token is awaited before the \<open>try\<close> block, so the rejection
  leaves the handler uncaught and the control stays disabled with the loading label. The
  email/password path awaits the token inside its \<open>try\<close> block and restores the control.
\<close>

theorem google_token_rejection_unhandled:
  "googleSignUpBtn_click
     (online\<lparr>getIdToken := (\<lambda>u. Inl (rejection ''auth/network-request-failed''))\<rparr>)
     (fresh ''Sign up with Google'') =
   (UnhandledRejection (rejection ''auth/network-request-failed''),
    \<lparr>disabled = True, innerHTML = loadingHTML, errors = [], successes = [], timers = [],
     calls = [SignInWithPopup, GetIdToken]\<rparr>)"
  by (simp add: run_eval)

text \<open>
  C4, as stated, fails for the recovery branch: when the request to
  \<open>/api/check-deleted-email\<close> is rejected, the \<open>catch\<close> clause shows \<open>result.error\<close>, the
  translated "already registered" message, not a network-error message.
\<close>

theorem recovery_network_failure_counterexample:
  "fetch (email_taken\<lparr>fetch := (\<lambda>url body. FetchRejected TypeError)\<rparr>)
     ''/api/check-deleted-email'' [(''email'', JStr ''alice@example.com'')] = FetchRejected TypeError \<and>
   registerForm_submit (email_taken\<lparr>fetch := (\<lambda>url body. FetchRejected TypeError)\<rparr>)
     ''Alice'' ''alice@example.com'' ''secret1'' ''secret1'' (fresh ''Create Account'') =
   (Settled,
    \<lparr>disabled = False, innerHTML = ''Create Account'',
     errors = [JStr ''This email is already registered. Please sign in instead.''],
     successes = [], timers = [],
     calls = [CreateUserWithEmailAndPassword ''alice@example.com'' ''secret1'',
              Fetch ''/api/check-deleted-email'' [(''email'', JStr ''alice@example.com'')]]\<rparr>)"
  by (simp add: run_eval)

text \<open>
  C4, amended: when the passwords match, a network failure in the backend step after a
  successful creation (the token cannot be fetched, or the registration endpoint cannot be
  reached) shows \<open>Network error. Please try again.\<close>; a network failure in the recovery
  branch (the check endpoint cannot be reached, or, after a successful recovery sign-in,
  the token or the registration endpoint fails) shows the original translated provider
  message \<open>This email is already registered. Please sign in instead.\<close>; in both cases the
  control is enabled again with its original label.
\<close>

theorem registration_network_failure:
  assumes "confirmPassword = password"
  shows
    "(success (fst (signUpWithEmail env eml password name (snd (showLoading w)))) \<and>
      (token_rejected env \<or> unreachable env ''/firebase-register'') \<longrightarrow>
        errors (snd (registerForm_submit env name eml password confirmPassword w)) =
          errors w @ [JStr ''Network error. Please try again.''] \<and>
        \<not> disabled (snd (registerForm_submit env name eml password confirmPassword w)) \<and>
        innerHTML (snd (registerForm_submit env name eml password confirmPassword w)) = innerHTML w) \<and>
     (rawCode (fst (signUpWithEmail env eml password name (snd (showLoading w)))) =
        Some (JStr ''auth/email-already-in-use'') \<and>
      (unreachable env ''/api/check-deleted-email'' \<or>
       (\<exists>checkData u.
          fetch env ''/api/check-deleted-email'' (JSON_stringify [(''email'', JStr eml)]) = Json checkData \<and>
          truthy (d_deleted checkData) \<and> signInWithEmailAndPassword env eml password = Inr u \<and>
          (token_rejected env \<or> unreachable env ''/firebase-register''))) \<longrightarrow>
        errors (snd (registerForm_submit env name eml password confirmPassword w)) =
          errors w @ [JStr ''This email is already registered. Please sign in instead.''] \<and>
        \<not> disabled (snd (registerForm_submit env name eml password confirmPassword w)) \<and>
        innerHTML (snd (registerForm_submit env name eml password confirmPassword w)) = innerHTML w)"
proof (intro conjI impI)
  assume a: "success (fst (signUpWithEmail env eml password name (snd (showLoading w)))) \<and>
      (token_rejected env \<or> unreachable env ''/firebase-register'')"
  from normal_run [OF assms, of env eml name w] a obtain result w1 cs where
    run: "registerForm_submit env name eml password confirmPassword w =
             (Settled, normal_registration env result name (innerHTML w) w1)"
    and w1: "w1 = w\<lparr>disabled := True, innerHTML := loadingHTML, calls := calls w @ cs\<rparr>"
    by blast
  from normal_registration_network_failure [of env result name "innerHTML w" w1] a
  obtain w' where n: "normal_registration env result name (innerHTML w) w1 =
           showError (JStr ''Network error. Please try again.'') (hideLoading (innerHTML w) w')"
    and e: "errors w' = errors w1" by blast
  from w1 have "errors w1 = errors w" by simp
  with e show
    "errors (snd (registerForm_submit env name eml password confirmPassword w)) =
          errors w @ [JStr ''Network error. Please try again.'']"
    "\<not> disabled (snd (registerForm_submit env name eml password confirmPassword w))"
    "innerHTML (snd (registerForm_submit env name eml password confirmPassword w)) = innerHTML w"
    unfolding run n by (simp_all add: restored)
next
  assume a: "rawCode (fst (signUpWithEmail env eml password name (snd (showLoading w)))) =
        Some (JStr ''auth/email-already-in-use'') \<and>
      (unreachable env ''/api/check-deleted-email'' \<or>
       (\<exists>checkData u.
          fetch env ''/api/check-deleted-email'' (JSON_stringify [(''email'', JStr eml)]) = Json checkData \<and>
          truthy (d_deleted checkData) \<and> signInWithEmailAndPassword env eml password = Inr u \<and>
          (token_rejected env \<or> unreachable env ''/firebase-register'')))"
  from recovery_run [OF assms, of env eml name w] a obtain result w1 cs where
    run: "registerForm_submit env name eml password confirmPassword w =
             (Settled, recovery env result name eml password (innerHTML w) w1)"
    and err: "error result = Some (JStr ''This email is already registered. Please sign in instead.'')"
    and w1: "w1 = w\<lparr>disabled := True, innerHTML := loadingHTML, calls := calls w @ cs\<rparr>"
    by blast
  have "\<exists>w'. recovery env result name eml password (innerHTML w) w1 =
           showError (JStr ''This email is already registered. Please sign in instead.'')
             (hideLoading (innerHTML w) w') \<and> errors w' = errors w1"
  proof (cases "unreachable env ''/api/check-deleted-email''")
    case True
    from recovery_check_unreachable [OF True, of result name eml password "innerHTML w" w1] err
    show ?thesis by (auto simp: restored)
  next
    case False
    with a obtain checkData u where
      "fetch env ''/api/check-deleted-email'' (JSON_stringify [(''email'', JStr eml)]) = Json checkData"
      "truthy (d_deleted checkData)" "signInWithEmailAndPassword env eml password = Inr u"
      "token_rejected env \<or> unreachable env ''/firebase-register''"
      by blast
    from recovery_backend_failure [OF this, of result name "innerHTML w" w1] err
    show ?thesis by simp
  qed
  then obtain w' where n: "recovery env result name eml password (innerHTML w) w1 =
           showError (JStr ''This email is already registered. Please sign in instead.'')
             (hideLoading (innerHTML w) w')" and e: "errors w' = errors w1" by blast
  from w1 have "errors w1 = errors w" by simp
  with e show
    "errors (snd (registerForm_submit env name eml password confirmPassword w)) =
          errors w @ [JStr ''This email is already registered. Please sign in instead.'']"
    "\<not> disabled (snd (registerForm_submit env name eml password confirmPassword w))"
    "innerHTML (snd (registerForm_submit env name eml password confirmPassword w)) = innerHTML w"
    unfolding run n by (simp_all add: restored)
qed


theorem registration_network_failure_witness:
  "success (fst (signUpWithEmail (online\<lparr>fetch := (\<lambda>url body. FetchRejected TypeError)\<rparr>)
      ''alice@example.com'' ''secret1'' ''Alice'' (snd (showLoading (fresh ''Create Account''))))) \<and>
   unreachable (online\<lparr>fetch := (\<lambda>url body. FetchRejected TypeError)\<rparr>) ''/firebase-register'' \<and>
   errors (snd (registerForm_submit (online\<lparr>fetch := (\<lambda>url body. FetchRejected TypeError)\<rparr>)
      ''Alice'' ''alice@example.com'' ''secret1'' ''secret1'' (fresh ''Create Account''))) =
     [JStr ''Network error. Please try again.''] \<and>
   rawCode (fst (signUpWithEmail (email_taken\<lparr>fetch := (\<lambda>url body. FetchRejected TypeError)\<rparr>)
      ''alice@example.com'' ''secret1'' ''Alice'' (snd (showLoading (fresh ''Create Account''))))) =
     Some (JStr ''auth/email-already-in-use'') \<and>
   unreachable (email_taken\<lparr>fetch := (\<lambda>url body. FetchRejected TypeError)\<rparr>)
     ''/api/check-deleted-email'' \<and>
   errors (snd (registerForm_submit (email_taken\<lparr>fetch := (\<lambda>url body. FetchRejected TypeError)\<rparr>)
      ''Alice'' ''alice@example.com'' ''secret1'' ''secret1'' (fresh ''Create Account''))) =
     [JStr ''This email is already registered. Please sign in instead.''] \<and>
   \<not> disabled (snd (registerForm_submit (email_taken\<lparr>fetch := (\<lambda>url body. FetchRejected TypeError)\<rparr>)
      ''Alice'' ''alice@example.com'' ''secret1'' ''secret1'' (fresh ''Create Account'')))"
proof -
  let ?on = "online\<lparr>fetch := (\<lambda>url body. FetchRejected TypeError)\<rparr>"
  let ?taken = "email_taken\<lparr>fetch := (\<lambda>url body. FetchRejected TypeError)\<rparr>"
  have h1: "success (fst (signUpWithEmail ?on ''alice@example.com'' ''secret1'' ''Alice''
      (snd (showLoading (fresh ''Create Account'')))))"
    by (simp add: wrapper_defs online_def Let_def)
  have h2: "unreachable ?on ''/firebase-register''"
    by (simp add: unreachable_def online_def)
  have h3: "rawCode (fst (signUpWithEmail ?taken ''alice@example.com'' ''secret1'' ''Alice''
      (snd (showLoading (fresh ''Create Account''))))) = Some (JStr ''auth/email-already-in-use'')"
    by (simp add: wrapper_defs online_def email_taken_def rejection_def optional_def Let_def)
  have h4: "unreachable ?taken ''/api/check-deleted-email''"
    by (simp add: unreachable_def online_def email_taken_def)
  note A = registration_network_failure [where env = ?on and eml = "''alice@example.com''"
      and password = "''secret1''" and confirmPassword = "''secret1''" and name = "''Alice''"
      and w = "fresh ''Create Account''", OF refl]
  note B = registration_network_failure [where env = ?taken and eml = "''alice@example.com''"
      and password = "''secret1''" and confirmPassword = "''secret1''" and name = "''Alice''"
      and w = "fresh ''Create Account''", OF refl]
  have e: "errors (fresh ''Create Account'') = []" by (simp add: fresh_def)
  from A h1 h2 e have a: "errors (snd (registerForm_submit ?on
      ''Alice'' ''alice@example.com'' ''secret1'' ''secret1'' (fresh ''Create Account''))) =
     [JStr ''Network error. Please try again.'']"
    by (simp only: simp_thms append_Nil)
  from B h3 h4 e have b: "errors (snd (registerForm_submit ?taken
      ''Alice'' ''alice@example.com'' ''secret1'' ''secret1'' (fresh ''Create Account''))) =
     [JStr ''This email is already registered. Please sign in instead.''] \<and>
     \<not> disabled (snd (registerForm_submit ?taken
      ''Alice'' ''alice@example.com'' ''secret1'' ''secret1'' (fresh ''Create Account'')))"
    by (simp only: simp_thms append_Nil)
  from h1 h2 h3 h4 a b show ?thesis by (simp only: simp_thms)
qed

text \<open>
  C8: when the sign-up fails with raw code \<open>auth/email-already-in-use\<close> and the check
  endpoint answers with a falsy \<open>deleted\<close> (such as \<open>{deleted: false}\<close>), the handler shows
  the translated provider message for that code, makes no sign-in attempt, and enables the
  control again with its original label.
\<close>

theorem not_deleted_surfaces_provider_error:
  assumes "confirmPassword = password"
    and "rawCode (fst (signUpWithEmail env eml password name (snd (showLoading w)))) =
           Some (JStr ''auth/email-already-in-use'')"
    and "fetch env ''/api/check-deleted-email'' (JSON_stringify [(''email'', JStr eml)]) = Json checkData"
    and "\<not> truthy (d_deleted checkData)"
  shows "errors (snd (registerForm_submit env name eml password confirmPassword w)) =
           errors w @ [JStr ''This email is already registered. Please sign in instead.''] \<and>
         filter is_sign_in (calls (snd (registerForm_submit env name eml password confirmPassword w))) =
           filter is_sign_in (calls w) \<and>
         \<not> disabled (snd (registerForm_submit env name eml password confirmPassword w)) \<and>
         innerHTML (snd (registerForm_submit env name eml password confirmPassword w)) = innerHTML w"
proof -
  let ?w0 = "snd (showLoading w)"
  obtain result w1 where su: "signUpWithEmail env eml password name ?w0 = (result, w1)"
    by force
  from signUpWithEmail_rawCode [OF assms(2)] su
  have res: "\<not> success result"
      "error result = Some (JStr ''This email is already registered. Please sign in instead.'')"
    by (simp_all add: getErrorMessage_in_use)
  from assms(2) su have raw: "rawCode result = Some (JStr ''auth/email-already-in-use'')" by simp
  from signUpWithEmail_world [of env eml password name ?w0] su
  obtain cs where w1: "w1 = ?w0\<lparr>calls := calls ?w0 @ cs\<rparr>"
    and cs: "list_all (\<lambda>c. \<not> is_sign_in c \<and> \<not> is_register_request c) cs"
    by auto
  from cs have f: "filter is_sign_in cs = []" by (induction cs) auto
  have run: "registerForm_submit env name eml password confirmPassword w =
      (Settled, recovery env result name eml password (innerHTML w) w1)"
    using assms(1) su res(1) raw by (simp add: registerForm_submit_def showLoading_def)
  have rec: "recovery env result name eml password (innerHTML w) w1 =
      showError (JStr ''This email is already registered. Please sign in instead.'')
        (hideLoading (innerHTML w)
           (log (Fetch ''/api/check-deleted-email'' (JSON_stringify [(''email'', JStr eml)])) w1))"
    using assms(3,4) res(2) by (simp add: recovery_def Let_def)
  show ?thesis
    unfolding run rec by (simp add: world_ops w1 f)
qed


theorem not_deleted_surfaces_provider_error_witness:
  "rawCode (fst (signUpWithEmail
      (email_taken\<lparr>fetch := (\<lambda>url body. Json \<lparr>d_success = JBool True, d_error = JUndefined,
                                                d_deleted = JBool False\<rparr>)\<rparr>)
      ''alice@example.com'' ''secret1'' ''Alice'' (snd (showLoading (fresh ''Create Account''))))) =
     Some (JStr ''auth/email-already-in-use'') \<and>
   \<not> truthy (d_deleted \<lparr>d_success = JBool True, d_error = JUndefined, d_deleted = JBool False\<rparr>) \<and>
   errors (snd (registerForm_submit
      (email_taken\<lparr>fetch := (\<lambda>url body. Json \<lparr>d_success = JBool True, d_error = JUndefined,
                                                d_deleted = JBool False\<rparr>)\<rparr>)
      ''Alice'' ''alice@example.com'' ''secret1'' ''secret1'' (fresh ''Create Account''))) =
     [JStr ''This email is already registered. Please sign in instead.''] \<and>
   filter is_sign_in (calls (snd (registerForm_submit
      (email_taken\<lparr>fetch := (\<lambda>url body. Json \<lparr>d_success = JBool True, d_error = JUndefined,
                                                d_deleted = JBool False\<rparr>)\<rparr>)
      ''Alice'' ''alice@example.com'' ''secret1'' ''secret1'' (fresh ''Create Account'')))) = []"
proof -
  let ?d = "\<lparr>d_success = JBool True, d_error = JUndefined, d_deleted = JBool False\<rparr>"
  let ?env = "email_taken\<lparr>fetch := (\<lambda>url body. Json ?d)\<rparr>"
  have h1: "rawCode (fst (signUpWithEmail ?env ''alice@example.com'' ''secret1'' ''Alice''
      (snd (showLoading (fresh ''Create Account''))))) = Some (JStr ''auth/email-already-in-use'')"
    by (simp add: wrapper_defs online_def email_taken_def rejection_def optional_def Let_def)
  have h2: "fetch ?env ''/api/check-deleted-email''
      (JSON_stringify [(''email'', JStr ''alice@example.com'')]) = Json ?d"
    by (simp add: online_def email_taken_def)
  have h3: "\<not> truthy (d_deleted ?d)" by simp
  have e: "errors (fresh ''Create Account'') = []" "calls (fresh ''Create Account'') = []"
    by (simp_all add: fresh_def)
  from not_deleted_surfaces_provider_error [OF refl h1 h2 h3] e h1 h3
  show ?thesis by (simp only: simp_thms append_Nil filter.simps)
qed

text \<open>
  C5, as stated, fails for the failed recovery sign-in: the handler then shows its own fixed
  text, not the provider message that the sign-up returned.
\<close>

theorem sign_in_failure_counterexample:
  "registerForm_submit
     (email_taken\<lparr>signInWithEmailAndPassword := (\<lambda>e p. Inl (rejection ''auth/wrong-password''))\<rparr>)
     ''Alice'' ''alice@example.com'' ''secret2'' ''secret2'' (fresh ''Create Account'') =
   (Settled,
    \<lparr>disabled = False, innerHTML = ''Create Account'',
     errors = [JStr ''An account with this email exists. Please sign in or use a different email.''],
     successes = [], timers = [],
     calls = [CreateUserWithEmailAndPassword ''alice@example.com'' ''secret2'',
              Fetch ''/api/check-deleted-email'' [(''email'', JStr ''alice@example.com'')],
              SignInWithEmailAndPassword ''alice@example.com'' ''secret2'']\<rparr>) \<and>
   getErrorMessage (Some ''auth/email-already-in-use'') =
     JStr ''This email is already registered. Please sign in instead.''"
  by (simp add: run_eval)

text \<open>
  C5, amended: in the recovery branch, when the backend reports that the email was not
  soft-deleted the handler shows the original translated provider message
  \<open>This email is already registered. Please sign in instead.\<close>; when the email was
  soft-deleted and the recovery sign-in fails it shows the fixed message
  \<open>An account with this email exists. Please sign in or use a different email.\<close>; in both
  cases the control is enabled again with its original label.
\<close>

theorem recovery_refusal_messages:
  assumes "confirmPassword = password"
    and "rawCode (fst (signUpWithEmail env eml password name (snd (showLoading w)))) =
           Some (JStr ''auth/email-already-in-use'')"
    and "fetch env ''/api/check-deleted-email'' (JSON_stringify [(''email'', JStr eml)]) = Json checkData"
  shows
    "(\<not> truthy (d_deleted checkData) \<longrightarrow>
        errors (snd (registerForm_submit env name eml password confirmPassword w)) =
          errors w @ [JStr ''This email is already registered. Please sign in instead.''] \<and>
        \<not> disabled (snd (registerForm_submit env name eml password confirmPassword w)) \<and>
        innerHTML (snd (registerForm_submit env name eml password confirmPassword w)) = innerHTML w) \<and>
     (truthy (d_deleted checkData) \<and> (\<exists>e. signInWithEmailAndPassword env eml password = Inl e) \<longrightarrow>
        errors (snd (registerForm_submit env name eml password confirmPassword w)) =
          errors w @ [JStr ''An account with this email exists. Please sign in or use a different email.''] \<and>
        \<not> disabled (snd (registerForm_submit env name eml password confirmPassword w)) \<and>
        innerHTML (snd (registerForm_submit env name eml password confirmPassword w)) = innerHTML w)"
proof -
  from recovery_run [OF assms(1,2)] obtain result w1 cs where
    run: "registerForm_submit env name eml password confirmPassword w =
             (Settled, recovery env result name eml password (innerHTML w) w1)"
    and err: "error result = Some (JStr ''This email is already registered. Please sign in instead.'')"
    and w1: "w1 = w\<lparr>disabled := True, innerHTML := loadingHTML, calls := calls w @ cs\<rparr>"
    by blast
  from w1 have e1: "errors w1 = errors w" by simp
  show ?thesis
  proof (intro conjI impI)
    assume nd: "\<not> truthy (d_deleted checkData)"
    note rec = recovery_not_deleted [OF assms(3) nd, of result name password "innerHTML w" w1]
    show "errors (snd (registerForm_submit env name eml password confirmPassword w)) =
          errors w @ [JStr ''This email is already registered. Please sign in instead.'']"
      "\<not> disabled (snd (registerForm_submit env name eml password confirmPassword w))"
      "innerHTML (snd (registerForm_submit env name eml password confirmPassword w)) = innerHTML w"
      unfolding run rec by (simp_all add: restored err e1)
  next
    assume a: "truthy (d_deleted checkData) \<and> (\<exists>e. signInWithEmailAndPassword env eml password = Inl e)"
    then obtain e where d: "truthy (d_deleted checkData)"
      and si: "signInWithEmailAndPassword env eml password = Inl e" by blast
    note rec = recovery_sign_in_failed [OF assms(3) d si, of result name "innerHTML w" w1]
    show "errors (snd (registerForm_submit env name eml password confirmPassword w)) =
          errors w @ [JStr ''An account with this email exists. Please sign in or use a different email.'']"
      "\<not> disabled (snd (registerForm_submit env name eml password confirmPassword w))"
      "innerHTML (snd (registerForm_submit env name eml password confirmPassword w)) = innerHTML w"
      unfolding run rec by (simp_all add: restored e1)
  qed
qed

theorem recovery_refusal_messages_witness:
  "rawCode (fst (signUpWithEmail
      (email_taken\<lparr>fetch := (\<lambda>url body. Json \<lparr>d_success = JBool True, d_error = JUndefined,
                                                d_deleted = JBool False\<rparr>)\<rparr>)
      ''alice@example.com'' ''secret2'' ''Alice'' (snd (showLoading (fresh ''Create Account''))))) =
     Some (JStr ''auth/email-already-in-use'') \<and>
   \<not> truthy (d_deleted \<lparr>d_success = JBool True, d_error = JUndefined, d_deleted = JBool False\<rparr>) \<and>
   errors (snd (registerForm_submit
      (email_taken\<lparr>fetch := (\<lambda>url body. Json \<lparr>d_success = JBool True, d_error = JUndefined,
                                                d_deleted = JBool False\<rparr>)\<rparr>)
      ''Alice'' ''alice@example.com'' ''secret2'' ''secret2'' (fresh ''Create Account''))) =
     [JStr ''This email is already registered. Please sign in instead.''] \<and>
   rawCode (fst (signUpWithEmail
      (email_taken\<lparr>signInWithEmailAndPassword := (\<lambda>e p. Inl (rejection ''auth/wrong-password''))\<rparr>)
      ''alice@example.com'' ''secret2'' ''Alice'' (snd (showLoading (fresh ''Create Account''))))) =
     Some (JStr ''auth/email-already-in-use'') \<and>
   truthy (d_deleted \<lparr>d_success = JBool True, d_error = JUndefined, d_deleted = JBool True\<rparr>) \<and>
   signInWithEmailAndPassword
      (email_taken\<lparr>signInWithEmailAndPassword := (\<lambda>e p. Inl (rejection ''auth/wrong-password''))\<rparr>)
      ''alice@example.com'' ''secret2'' = Inl (rejection ''auth/wrong-password'') \<and>
   errors (snd (registerForm_submit
      (email_taken\<lparr>signInWithEmailAndPassword := (\<lambda>e p. Inl (rejection ''auth/wrong-password''))\<rparr>)
      ''Alice'' ''alice@example.com'' ''secret2'' ''secret2'' (fresh ''Create Account''))) =
     [JStr ''An account with this email exists. Please sign in or use a different email.''] \<and>
   \<not> disabled (snd (registerForm_submit
      (email_taken\<lparr>signInWithEmailAndPassword := (\<lambda>e p. Inl (rejection ''auth/wrong-password''))\<rparr>)
      ''Alice'' ''alice@example.com'' ''secret2'' ''secret2'' (fresh ''Create Account'')))"
proof -
  let ?no = "\<lparr>d_success = JBool True, d_error = JUndefined, d_deleted = JBool False\<rparr>"
  let ?yes = "\<lparr>d_success = JBool True, d_error = JUndefined, d_deleted = JBool True\<rparr>"
  let ?env1 = "email_taken\<lparr>fetch := (\<lambda>url body. Json ?no)\<rparr>"
  let ?env2 = "email_taken\<lparr>signInWithEmailAndPassword :=
                   (\<lambda>e p. Inl (rejection ''auth/wrong-password''))\<rparr>"
  have r1: "rawCode (fst (signUpWithEmail ?env1 ''alice@example.com'' ''secret2'' ''Alice''
      (snd (showLoading (fresh ''Create Account''))))) = Some (JStr ''auth/email-already-in-use'')"
    by (simp add: wrapper_defs online_def email_taken_def rejection_def optional_def Let_def)
  have f1: "fetch ?env1 ''/api/check-deleted-email''
      (JSON_stringify [(''email'', JStr ''alice@example.com'')]) = Json ?no"
    by (simp add: online_def email_taken_def)
  have d1: "\<not> truthy (d_deleted ?no)" by simp
  have r2: "rawCode (fst (signUpWithEmail ?env2 ''alice@example.com'' ''secret2'' ''Alice''
      (snd (showLoading (fresh ''Create Account''))))) = Some (JStr ''auth/email-already-in-use'')"
    by (simp add: wrapper_defs online_def email_taken_def rejection_def optional_def Let_def)
  have f2: "fetch ?env2 ''/api/check-deleted-email''
      (JSON_stringify [(''email'', JStr ''alice@example.com'')]) = Json ?yes"
    by (simp add: online_def email_taken_def)
  have d2: "truthy (d_deleted ?yes)" by simp
  have s2: "signInWithEmailAndPassword ?env2 ''alice@example.com'' ''secret2'' =
      Inl (rejection ''auth/wrong-password'')"
    by (simp add: online_def email_taken_def)
  then have s2': "\<exists>e. signInWithEmailAndPassword ?env2 ''alice@example.com'' ''secret2'' = Inl e"
    by blast
  have e: "errors (fresh ''Create Account'') = []" by (simp add: fresh_def)
  from recovery_refusal_messages [OF refl r1 f1] d1 e
  have a: "errors (snd (registerForm_submit ?env1
      ''Alice'' ''alice@example.com'' ''secret2'' ''secret2'' (fresh ''Create Account''))) =
     [JStr ''This email is already registered. Please sign in instead.'']"
    by (simp only: simp_thms append_Nil)
  from recovery_refusal_messages [OF refl r2 f2] d2 s2' e
  have b: "errors (snd (registerForm_submit ?env2
      ''Alice'' ''alice@example.com'' ''secret2'' ''secret2'' (fresh ''Create Account''))) =
     [JStr ''An account with this email exists. Please sign in or use a different email.''] \<and>
     \<not> disabled (snd (registerForm_submit ?env2
      ''Alice'' ''alice@example.com'' ''secret2'' ''secret2'' (fresh ''Create Account'')))"
    by (simp only: simp_thms append_Nil)
  from r1 d1 a r2 d2 s2 b show ?thesis by (simp only: simp_thms)
qed

text \<open>
  C6, as stated, fails for the Google sign-up: the body that handler builds has six
  properties and no \<open>is_reregistration\<close>.
\<close>

theorem google_body_counterexample:
  "googleSignUpBtn_click online (fresh ''Sign up with Google'') =
   (Settled,
    \<lparr>disabled = True, innerHTML = loadingHTML, errors = [],
     successes = [''Account created successfully! Redirecting...''],
     timers = [(1000, ''/dashboard'')],
     calls = [SignInWithPopup, GetIdToken,
              Fetch ''/firebase-register''
                [(''token'', JStr ''token-1''), (''email'', JStr ''alice@example.com''),
                 (''uid'', JStr ''uid-1''), (''displayName'', JStr ''Alice''),
                 (''photoURL'', JNull), (''provider'', JStr ''google'')]]\<rparr>)"
  by (simp add: run_eval)

text \<open>
  C6, amended: every request to \<open>/firebase-register\<close> sent by the email registration
  handler (normal registration and re-registration recovery, both through
  \<open>completeBackendRegistration\<close>) has a body with the seven properties \<open>token\<close>, \<open>email\<close>,
  \<open>uid\<close>, \<open>displayName\<close>, \<open>photoURL\<close>, \<open>provider\<close>, \<open>is_reregistration\<close>; every such request
  sent by the Google sign-up handler has a body with the first six of them.
\<close>

theorem registration_request_fields:
  "(\<forall>body. Fetch ''/firebase-register'' body \<in>
             set (calls (snd (registerForm_submit env name eml password confirmPassword (fresh label))))
           \<longrightarrow> map fst body = seven_fields) \<and>
   (\<forall>body. Fetch ''/firebase-register'' body \<in> set (calls (snd (googleSignUpBtn_click env (fresh label))))
           \<longrightarrow> map fst body = six_fields)"
proof -
  have "calls (fresh label) = []" by (simp add: fresh_def)
  then show ?thesis
    using registerForm_submit_requests [of _ env name eml password confirmPassword "fresh label"]
      googleSignUpBtn_click_requests [of _ env "fresh label"]
    by auto
qed

theorem registration_request_fields_witness:
  "Fetch ''/firebase-register''
     [(''token'', JStr ''token-1''), (''email'', JStr ''alice@example.com''), (''uid'', JStr ''uid-1''),
      (''displayName'', JStr ''Alice''), (''photoURL'', JStr []), (''provider'', JStr ''email''),
      (''is_reregistration'', JBool False)]
     \<in> set (calls (snd (registerForm_submit online ''Alice'' ''alice@example.com'' ''secret1''
                           ''secret1'' (fresh ''Sign up'')))) \<and>
   map fst
     [(''token'', JStr ''token-1''), (''email'', JStr ''alice@example.com''), (''uid'', JStr ''uid-1''),
      (''displayName'', JStr ''Alice''), (''photoURL'', JStr []), (''provider'', JStr ''email''),
      (''is_reregistration'', JBool False)] = seven_fields \<and>
   Fetch ''/firebase-register''
     [(''token'', JStr ''token-1''), (''email'', JStr ''alice@example.com''), (''uid'', JStr ''uid-1''),
      (''displayName'', JStr ''Alice''), (''photoURL'', JNull), (''provider'', JStr ''google'')]
     \<in> set (calls (snd (googleSignUpBtn_click online (fresh ''Sign up'')))) \<and>
   map fst
     [(''token'', JStr ''token-1''), (''email'', JStr ''alice@example.com''), (''uid'', JStr ''uid-1''),
      (''displayName'', JStr ''Alice''), (''photoURL'', JNull), (''provider'', JStr ''google'')]
     = six_fields"
proof -
  let ?b7 = "[(''token'', JStr ''token-1''), (''email'', JStr ''alice@example.com''),
      (''uid'', JStr ''uid-1''), (''displayName'', JStr ''Alice''), (''photoURL'', JStr []),
      (''provider'', JStr ''email''), (''is_reregistration'', JBool False)]"
  let ?b6 = "[(''token'', JStr ''token-1''), (''email'', JStr ''alice@example.com''),
      (''uid'', JStr ''uid-1''), (''displayName'', JStr ''Alice''), (''photoURL'', JNull),
      (''provider'', JStr ''google'')]"
  have m7: "Fetch ''/firebase-register'' ?b7
     \<in> set (calls (snd (registerForm_submit online ''Alice'' ''alice@example.com'' ''secret1''
                           ''secret1'' (fresh ''Sign up''))))"
    by (simp add: run_eval)
  have m6: "Fetch ''/firebase-register'' ?b6
     \<in> set (calls (snd (googleSignUpBtn_click online (fresh ''Sign up''))))"
    by (simp add: run_eval)
  note T = registration_request_fields [where env = online and name = "''Alice''"
      and eml = "''alice@example.com''" and password = "''secret1''"
      and confirmPassword = "''secret1''" and label = "''Sign up''"]
  from T m7 have k7: "map fst ?b7 = seven_fields" by blast
  from T m6 have k6: "map fst ?b6 = six_fields" by blast
  from m7 k7 m6 k6 show ?thesis by (simp only: simp_thms)
qed

text \<open>
  C7, as stated, fails when the bearer token cannot be fetched after the recovery sign-in:
  the rejection of \<open>getIdToken()\<close> is caught and no request to \<open>/firebase-register\<close> is
  sent.
\<close>

theorem reregistration_token_counterexample:
  "registerForm_submit
     (email_taken\<lparr>getIdToken := (\<lambda>u. Inl (rejection ''auth/network-request-failed''))\<rparr>)
     ''Alice'' ''alice@example.com'' ''secret1'' ''secret1'' (fresh ''Create Account'') =
   (Settled,
    \<lparr>disabled = False, innerHTML = ''Create Account'',
     errors = [JStr ''This email is already registered. Please sign in instead.''],
     successes = [], timers = [],
     calls = [CreateUserWithEmailAndPassword ''alice@example.com'' ''secret1'',
              Fetch ''/api/check-deleted-email'' [(''email'', JStr ''alice@example.com'')],
              SignInWithEmailAndPassword ''alice@example.com'' ''secret1'',
              GetIdToken]\<rparr>) \<and>
   signInWithEmailAndPassword
     (email_taken\<lparr>getIdToken := (\<lambda>u. Inl (rejection ''auth/network-request-failed''))\<rparr>)
     ''alice@example.com'' ''secret1'' = Inr alice \<and>
   filter is_register_request
     (calls (snd (registerForm_submit
        (email_taken\<lparr>getIdToken := (\<lambda>u. Inl (rejection ''auth/network-request-failed''))\<rparr>)
        ''Alice'' ''alice@example.com'' ''secret1'' ''secret1'' (fresh ''Create Account'')))) = []"
  by (simp add: run_eval)

text \<open>
  C7, amended: when the sign-up fails with raw code \<open>auth/email-already-in-use\<close>, the check
  endpoint answers with a truthy \<open>deleted\<close>, the sign-in with the submitted email and
  password succeeds and fetching the bearer token is not rejected, the run sends exactly
  one request to \<open>/firebase-register\<close>, and its body carries \<open>is_reregistration: true\<close>.
\<close>

theorem reregistration_single_request:
  assumes "confirmPassword = password"
    and "rawCode (fst (signUpWithEmail env eml password name (snd (showLoading w)))) =
           Some (JStr ''auth/email-already-in-use'')"
    and "fetch env ''/api/check-deleted-email'' (JSON_stringify [(''email'', JStr eml)]) = Json checkData"
    and "truthy (d_deleted checkData)"
    and "signInWithEmailAndPassword env eml password = Inr u"
    and "\<not> token_rejected env"
  shows "\<exists>body.
           filter is_register_request
             (calls (snd (registerForm_submit env name eml password confirmPassword w))) =
           filter is_register_request (calls w) @ [Fetch ''/firebase-register'' body] \<and>
           (''is_reregistration'', JBool True) \<in> set body"
proof -
  from recovery_run [OF assms(1,2)] obtain result w1 cs where
    run: "registerForm_submit env name eml password confirmPassword w =
             (Settled, recovery env result name eml password (innerHTML w) w1)"
    and w1: "w1 = w\<lparr>disabled := True, innerHTML := loadingHTML, calls := calls w @ cs\<rparr>"
    and cs: "list_all (\<lambda>c. \<not> is_sign_in c \<and> \<not> is_register_request c) cs"
    by blast
  from w1 quiet_no_register_request [OF cs]
  have f: "filter is_register_request (calls w1) = filter is_register_request (calls w)" by simp
  from recovery_reregisters [OF assms(3-6), of result name "innerHTML w" w1]
  obtain body where
    "filter is_register_request (calls (recovery env result name eml password (innerHTML w) w1)) =
       filter is_register_request (calls w1) @ [Fetch ''/firebase-register'' body]"
    "(''is_reregistration'', JBool True) \<in> set body" by blast
  with f show ?thesis unfolding run by (intro exI [of _ body]) simp
qed

theorem reregistration_single_request_witness:
  "rawCode (fst (signUpWithEmail email_taken ''alice@example.com'' ''secret1'' ''Alice''
      (snd (showLoading (fresh ''Create Account''))))) = Some (JStr ''auth/email-already-in-use'') \<and>
   fetch email_taken ''/api/check-deleted-email''
      (JSON_stringify [(''email'', JStr ''alice@example.com'')]) =
     Json \<lparr>d_success = JBool True, d_error = JUndefined, d_deleted = JBool True\<rparr> \<and>
   signInWithEmailAndPassword email_taken ''alice@example.com'' ''secret1'' = Inr alice \<and>
   \<not> token_rejected email_taken \<and>
   (\<exists>body.
      filter is_register_request
        (calls (snd (registerForm_submit email_taken ''Alice'' ''alice@example.com'' ''secret1''
                       ''secret1'' (fresh ''Create Account'')))) =
        [Fetch ''/firebase-register'' body] \<and>
      (''is_reregistration'', JBool True) \<in> set body)"
proof -
  let ?yes = "\<lparr>d_success = JBool True, d_error = JUndefined, d_deleted = JBool True\<rparr>"
  have r: "rawCode (fst (signUpWithEmail email_taken ''alice@example.com'' ''secret1'' ''Alice''
      (snd (showLoading (fresh ''Create Account''))))) = Some (JStr ''auth/email-already-in-use'')"
    by (simp add: wrapper_defs online_def email_taken_def rejection_def optional_def Let_def)
  have f: "fetch email_taken ''/api/check-deleted-email''
      (JSON_stringify [(''email'', JStr ''alice@example.com'')]) = Json ?yes"
    by (simp add: online_def email_taken_def)
  have d: "truthy (d_deleted ?yes)" by simp
  have s: "signInWithEmailAndPassword email_taken ''alice@example.com'' ''secret1'' = Inr alice"
    by (simp add: online_def email_taken_def)
  have t: "\<not> token_rejected email_taken"
    by (simp add: token_rejected_def online_def email_taken_def)
  have c: "calls (fresh ''Create Account'') = []" by (simp add: fresh_def)
  from reregistration_single_request [OF refl r f d s t] c
  have "\<exists>body.
      filter is_register_request
        (calls (snd (registerForm_submit email_taken ''Alice'' ''alice@example.com'' ''secret1''
                       ''secret1'' (fresh ''Create Account'')))) =
        [Fetch ''/firebase-register'' body] \<and>
      (''is_reregistration'', JBool True) \<in> set body"
    by (simp only: filter.simps append_Nil)
  with r f s t show ?thesis by (simp only: simp_thms)
qed

end
